(* ===== verification/Prelude.thy ===== *)
theory Prelude
  imports Main "HOL-Library.Multiset"
begin

text \<open>
  Shared vocabulary of the development: the representation of time and of Go strings,
  the three ways a Go function can end (\<open>go_result\<close>), the events the two programs
  write to their standard error stream, the \<^theory_text>\<open>named_theorems\<close> collection of the
  definitions the examples unfold, and the generic list lemmas they share.
\<close>

section \<open>Collections\<close>

named_theorems example_defs "definitions of the example inputs and the time constants, unfolded where a lemma is applied to them"

section \<open>Time and strings\<close>

text \<open>
  Time is Go's \<open>time.Duration\<close> unit, nanoseconds, counted from an arbitrary origin;
  \<open>time.Millisecond\<close> is \<open>10^6\<close> of them. A Go \<open>string\<close> is a sequence of
  bytes; an Isabelle \<open>char\<close> is a byte, so \<open>bytes\<close> is \<open>char list\<close> and text
  outside ASCII is written as its UTF-8 bytes.
\<close>

type_synonym time = nat
type_synonym bytes = "char list"

definition millisecond :: time where
  "millisecond = 1000000"

declare millisecond_def [example_defs]

section \<open>How a Go call ends\<close>

text \<open>
  A Go function returns (\<open>Ret\<close>), panics (\<open>Panic\<close>: a nil-pointer dereference or
  an explicit \<open>panic\<close>), or ends the whole process (\<open>Exit\<close>: \<open>log.Fatal\<close> and
  \<open>log.Fatalln\<close> call \<open>os.Exit(1)\<close>, which runs no deferred call).
\<close>

datatype 'a go_result = Ret 'a | Panic | Exit

section \<open>Standard error\<close>

text \<open>
  One constructor per line the programs write to standard error (the \<open>log\<close>
  package writes there too), named after the message in the source.
\<close>

datatype log_event =
    Log_api_error          \<comment> \<open>server: "Erro ao consumir API"\<close>
  | Log_api_timeout        \<comment> \<open>server: "Timeout maximo para chamar API ultrapassado"\<close>
  | Err_request            \<comment> \<open>server: "Erro ao fazer requisicao"\<close>
  | Err_read_body          \<comment> \<open>server: "Erro ao ler resposta"\<close>
  | Err_parse              \<comment> \<open>server: "Erro ao fazer parse da resposta"\<close>
  | Log_api_ok             \<comment> \<open>server: "Consulta API com sucesso"\<close>
  | Log_persist_timeout    \<comment> \<open>server: "Timeout maximo para persistir dados ultrapassado"\<close>
  | Log_persist_ok         \<comment> \<open>server: "Gravacao de dados realizado com sucesso"\<close>
  | Log_fatal              \<comment> \<open>server: \<open>log.Fatal(err)\<close> before the process exits\<close>
  | Log_handler_panic      \<comment> \<open>server: net/http's "http: panic serving" on a recovered panic\<close>
  | Log_client_timeout1    \<comment> \<open>client: "Timeout maximo para acesso Server ultrapassado 1"\<close>
  | Log_client_timeout2    \<comment> \<open>client: "... ultrapassado 2"\<close>
  | Log_client_timeout3    \<comment> \<open>client: "... ultrapassado 3"\<close>
  | Log_ctx_err            \<comment> \<open>client: \<open>log.Println(ctx.Err())\<close>\<close>
  | Err_client_read        \<comment> \<open>client: "Erro ao ler resposta"\<close>
  | Err_file_create        \<comment> \<open>client: "Erro ao criar arquivo"\<close>
  | Err_file_write         \<comment> \<open>client: "Erro ao gravar arquivo"\<close>
  | Log_client_panic       \<comment> \<open>client: the runtime's report of \<open>panic(err)\<close>\<close>

section \<open>Generic lemmas\<close>

lemma upto_snoc_int:
  "0 \<le> n \<Longrightarrow> [1..n + 1] = [1..n] @ [n + (1::int)]"
  by (simp add: upto_rec2)

lemma sorted_wrt_less_snoc:
  "sorted_wrt (<) (xs @ [x]) \<longleftrightarrow> sorted_wrt (<) xs \<and> (\<forall>y \<in> set xs. y < (x::int))"
  by (auto simp: sorted_wrt_append)

lemma fold_max_bounded:
  "\<forall>x \<in> set xs. x \<le> a \<Longrightarrow> fold max xs (a::int) = a"
  by (induction xs) (auto simp: max_def)

lemma map_filter_update_same:
  "i < length xs \<Longrightarrow> f y = f (xs ! i) \<Longrightarrow> List.map_filter f (xs[i := y]) = List.map_filter f xs"
  by (induction xs arbitrary: i) (auto simp: map_filter_simps split: nat.splits option.splits)

lemma mset_map_filter_update_Some:
  "i < length xs \<Longrightarrow> f (xs ! i) = None \<Longrightarrow> f y = Some r \<Longrightarrow>
   mset (List.map_filter f (xs[i := y])) = add_mset r (mset (List.map_filter f xs))"
proof (induction xs arbitrary: i)
  case Nil
  then show ?case by simp
next
  case (Cons a xs)
  then show ?case
    by (cases i) (auto simp: map_filter_simps split: option.splits)
qed

lemma map_filter_snoc_None:
  "f x = None \<Longrightarrow> List.map_filter f (xs @ [x]) = List.map_filter f xs"
  by (simp add: map_filter_def)

end
