(* ===== verification/Deadline.thy ===== *)
theory Deadline
  imports Prelude
begin

text \<open>
  Go's \<open>context.WithTimeout(context.Background(), d)\<close> as both programs use it:
  a context whose only content is a deadline, \<open>d\<close> after the instant it is made.
  Its \<open>Done()\<close> channel is closed once the clock reaches the deadline; both
  programs only ever test it in a \<open>select\<close> with a \<open>default\<close> branch, which is
  a test of that condition at the instant the \<open>select\<close> runs. \<open>ctx.Err()\<close> is
  then \<open>DeadlineExceeded\<close>. The context is never cancelled early: its \<open>cancel\<close>
  runs only in a \<open>defer\<close> when the function that made it returns.
\<close>

record go_context =
  ctx_deadline :: time

datatype go_error =
    DeadlineExceeded      \<comment> \<open>\<open>context.DeadlineExceeded\<close>\<close>
  | Transport_failure     \<comment> \<open>a \<open>net/http\<close> transport error (refused, reset, EOF)\<close>

definition WithTimeout :: "time \<Rightarrow> time \<Rightarrow> go_context" where
  "WithTimeout now d = \<lparr>ctx_deadline = now + d\<rparr>"

text \<open>\<open>select { case <-ctx.Done(): ... default: ... }\<close> run at instant \<open>now\<close>.\<close>

definition ctx_done :: "go_context \<Rightarrow> time \<Rightarrow> bool" where
  "ctx_done ctx now \<longleftrightarrow> ctx_deadline ctx \<le> now"

definition ctx_err :: "go_context \<Rightarrow> time \<Rightarrow> go_error option" where
  "ctx_err ctx now = (if ctx_done ctx now then Some DeadlineExceeded else None)"

text \<open>The two budgets of the repository, \<open>210*time.Millisecond\<close> and \<open>300*time.Millisecond\<close>.\<close>

definition server_timeout :: time where
  "server_timeout = 210 * millisecond"

definition client_timeout :: time where
  "client_timeout = 300 * millisecond"

declare server_timeout_def [example_defs] client_timeout_def [example_defs]

lemma ctx_done_WithTimeout [simp]:
  "ctx_done (WithTimeout t0 d) t \<longleftrightarrow> t0 + d \<le> t"
  by (simp add: ctx_done_def WithTimeout_def)

lemma ctx_done_mono:
  "ctx_done ctx t \<Longrightarrow> t \<le> t' \<Longrightarrow> ctx_done ctx t'"
  by (simp add: ctx_done_def)

lemma ctx_err_iff [simp]:
  "ctx_err ctx t = None \<longleftrightarrow> \<not> ctx_done ctx t"
  by (simp add: ctx_err_def)

lemma timeouts_ns:
  "server_timeout = 210000000" "client_timeout = 300000000"
  by (simp_all add: example_defs)

end
