(* ===== verification/Quote.thy ===== *)
theory Quote
  imports Prelude
begin

text \<open>
  The quote data of \<open>src/server/main.go\<close>: the struct \<open>CotacaoUSDBRL\<close> with its
  nested anonymous struct (here the record \<open>usdbrl\<close>), the unused struct \<open>Cot\<close>,
  and how \<open>json.Unmarshal\<close> fills \<open>CotacaoUSDBRL\<close> from a parsed JSON value:
  keys matched to the \<open>json:"..."\<close> tags exactly or up to case folding, unknown keys
  skipped, a string stored, \<open>null\<close> ignored, any other value a type error that
  leaves the field as it was. The byte-level parser is not modelled: a payload is
  given as its parse, \<open>None\<close> for bytes that are not JSON (Go then reports a syntax
  error and leaves the target untouched).
\<close>

section \<open>The Go structs\<close>

record usdbrl =
  Code :: bytes
  Codein :: bytes
  Name :: bytes
  High :: bytes
  Low :: bytes
  VarBid :: bytes
  PctChange :: bytes
  Bid :: bytes
  Ask :: bytes
  Timestamp :: bytes
  CreateDate :: bytes

record CotacaoUSDBRL =
  Usdbrl :: usdbrl

record Cot =
  Cot_Bid :: bytes

text \<open>Go's zero values: every string field empty.\<close>

definition zero_usdbrl :: usdbrl where
  "zero_usdbrl = \<lparr>Code = [], Codein = [], Name = [], High = [], Low = [], VarBid = [],
     PctChange = [], Bid = [], Ask = [], Timestamp = [], CreateDate = []\<rparr>"

definition zero_cotacao :: CotacaoUSDBRL where
  "zero_cotacao = \<lparr>Usdbrl = zero_usdbrl\<rparr>"

text \<open>The fields of the nested struct in declaration order, with their tags.\<close>

datatype usdbrl_field =
  F_Code | F_Codein | F_Name | F_High | F_Low | F_VarBid | F_PctChange | F_Bid | F_Ask
  | F_Timestamp | F_CreateDate

fun field_tag :: "usdbrl_field \<Rightarrow> bytes" where
  "field_tag F_Code = ''code''"
| "field_tag F_Codein = ''codein''"
| "field_tag F_Name = ''name''"
| "field_tag F_High = ''high''"
| "field_tag F_Low = ''low''"
| "field_tag F_VarBid = ''varBid''"
| "field_tag F_PctChange = ''pctChange''"
| "field_tag F_Bid = ''bid''"
| "field_tag F_Ask = ''ask''"
| "field_tag F_Timestamp = ''timestamp''"
| "field_tag F_CreateDate = ''create_date''"

fun get_field :: "usdbrl_field \<Rightarrow> usdbrl \<Rightarrow> bytes" where
  "get_field F_Code u = Code u"
| "get_field F_Codein u = Codein u"
| "get_field F_Name u = Name u"
| "get_field F_High u = High u"
| "get_field F_Low u = Low u"
| "get_field F_VarBid u = VarBid u"
| "get_field F_PctChange u = PctChange u"
| "get_field F_Bid u = Bid u"
| "get_field F_Ask u = Ask u"
| "get_field F_Timestamp u = Timestamp u"
| "get_field F_CreateDate u = CreateDate u"

fun set_field :: "usdbrl_field \<Rightarrow> bytes \<Rightarrow> usdbrl \<Rightarrow> usdbrl" where
  "set_field F_Code s u = u\<lparr>Code := s\<rparr>"
| "set_field F_Codein s u = u\<lparr>Codein := s\<rparr>"
| "set_field F_Name s u = u\<lparr>Name := s\<rparr>"
| "set_field F_High s u = u\<lparr>High := s\<rparr>"
| "set_field F_Low s u = u\<lparr>Low := s\<rparr>"
| "set_field F_VarBid s u = u\<lparr>VarBid := s\<rparr>"
| "set_field F_PctChange s u = u\<lparr>PctChange := s\<rparr>"
| "set_field F_Bid s u = u\<lparr>Bid := s\<rparr>"
| "set_field F_Ask s u = u\<lparr>Ask := s\<rparr>"
| "set_field F_Timestamp s u = u\<lparr>Timestamp := s\<rparr>"
| "set_field F_CreateDate s u = u\<lparr>CreateDate := s\<rparr>"

definition usdbrl_fields :: "usdbrl_field list" where
  "usdbrl_fields = [F_Code, F_Codein, F_Name, F_High, F_Low, F_VarBid, F_PctChange, F_Bid,
     F_Ask, F_Timestamp, F_CreateDate]"

section \<open>JSON values\<close>

text \<open>A parsed JSON value; strings are already unescaped, numbers keep their text.\<close>

datatype json =
    JNull
  | JBool bool
  | JNumber bytes
  | JString bytes
  | JArray "json list"
  | JObject "(bytes \<times> json) list"

section \<open>Matching keys to fields\<close>

text \<open>
  \<open>encoding/json\<close> folds names for the case-insensitive match: ASCII lower-case
  letters become upper case, the Kelvin sign (\<open>E2 84 AA\<close>) folds to \<open>K\<close> and the
  long s (\<open>C5 BF\<close>) to \<open>S\<close>. Other bytes are kept; Go re-encodes other non-ASCII
  runes, but either way they leave a byte above \<open>0x7F\<close>, so a key folds to the
  fold of an ASCII tag in this model exactly when it does in Go.
\<close>

definition ascii_upper :: "char \<Rightarrow> char" where
  "ascii_upper c =
     (let b = (of_char c :: nat) in if 97 \<le> b \<and> b \<le> 122 then char_of (b - 32) else c)"

fun fold_name :: "bytes \<Rightarrow> bytes" where
  "fold_name [] = []"
| "fold_name (c # cs) =
     (if of_char c < (128::nat) then ascii_upper c # fold_name cs
      else if c = CHR 0xE2 \<and> take 2 cs = [CHR 0x84, CHR 0xAA] then CHR ''K'' # fold_name (drop 2 cs)
      else if c = CHR 0xC5 \<and> take 1 cs = [CHR 0xBF] then CHR ''S'' # fold_name (drop 1 cs)
      else c # fold_name cs)"

text \<open>
  The field a key selects: a field whose tag equals the key, else the first whose
  folded tag equals the folded key (\<open>fields.byExactName\<close>, then
  \<open>fields.byFoldedName\<close>).
\<close>

definition lookup_field :: "('f \<times> bytes) list \<Rightarrow> bytes \<Rightarrow> 'f option" where
  "lookup_field fs k =
     (case find (\<lambda>(f, t). t = k) fs of
        Some (f, _) \<Rightarrow> Some f
      | None \<Rightarrow> map_option fst (find (\<lambda>(f, t). fold_name t = fold_name k) fs))"

definition usdbrl_tags :: "(usdbrl_field \<times> bytes) list" where
  "usdbrl_tags = map (\<lambda>f. (f, field_tag f)) usdbrl_fields"

definition cotacao_tags :: "(unit \<times> bytes) list" where
  "cotacao_tags = [((), ''USDBRL'')]"

section \<open>Decoding\<close>

text \<open>
  Decoding into a string field: a JSON string is stored, \<open>null\<close> leaves the field
  as it is, anything else is an \<open>UnmarshalTypeError\<close> (the flag) and leaves it too.
\<close>

fun decode_string :: "json \<Rightarrow> bytes \<Rightarrow> bytes \<times> bool" where
  "decode_string (JString s) old = (s, False)"
| "decode_string JNull old = (old, False)"
| "decode_string _ old = (old, True)"

definition decode_member :: "bytes \<times> json \<Rightarrow> usdbrl \<times> bool \<Rightarrow> usdbrl \<times> bool" where
  "decode_member kv ue =
     (case lookup_field usdbrl_tags (fst kv) of
        None \<Rightarrow> ue
      | Some f \<Rightarrow>
          (let (s, e) = decode_string (snd kv) (get_field f (fst ue))
           in (set_field f s (fst ue), snd ue \<or> e)))"

text \<open>Decoding into the nested struct: members in order, later keys overwrite.\<close>

fun decode_usdbrl :: "json \<Rightarrow> usdbrl \<Rightarrow> usdbrl \<times> bool" where
  "decode_usdbrl (JObject kvs) u = fold decode_member kvs (u, False)"
| "decode_usdbrl JNull u = (u, False)"
| "decode_usdbrl _ u = (u, True)"

definition decode_top_member :: "bytes \<times> json \<Rightarrow> CotacaoUSDBRL \<times> bool \<Rightarrow> CotacaoUSDBRL \<times> bool" where
  "decode_top_member kv ce =
     (case lookup_field cotacao_tags (fst kv) of
        None \<Rightarrow> ce
      | Some _ \<Rightarrow>
          (let (u, e) = decode_usdbrl (snd kv) (Usdbrl (fst ce))
           in ((fst ce)\<lparr>Usdbrl := u\<rparr>, snd ce \<or> e)))"

fun decode_cotacao :: "json \<Rightarrow> CotacaoUSDBRL \<Rightarrow> CotacaoUSDBRL \<times> bool" where
  "decode_cotacao (JObject kvs) c = fold decode_top_member kvs (c, False)"
| "decode_cotacao JNull c = (c, False)"
| "decode_cotacao _ c = (c, True)"

text \<open>
  \<open>json.Unmarshal(res, &data)\<close>: the payload's parse (\<open>None\<close>: a syntax error,
  reported before anything is stored) decoded into \<open>data\<close>; the flag is whether an
  error is returned.
\<close>

fun Unmarshal :: "json option \<Rightarrow> CotacaoUSDBRL \<Rightarrow> CotacaoUSDBRL \<times> bool" where
  "Unmarshal None c = (c, True)"
| "Unmarshal (Some j) c = decode_cotacao j c"

section \<open>The upstream's payload shape\<close>

text \<open>
  What the quote API sends: one object keyed \<open>USDBRL\<close>, whose members are the
  API's eleven keys with string values. The keys are written out as the API sends
  them, not taken from the struct's tags, so a mistyped tag breaks the decoding lemmas.
\<close>

definition usdbrl_json :: "usdbrl \<Rightarrow> json" where
  "usdbrl_json u = JObject
     [(''code'', JString (Code u)), (''codein'', JString (Codein u)), (''name'', JString (Name u)),
      (''high'', JString (High u)), (''low'', JString (Low u)), (''varBid'', JString (VarBid u)),
      (''pctChange'', JString (PctChange u)), (''bid'', JString (Bid u)), (''ask'', JString (Ask u)),
      (''timestamp'', JString (Timestamp u)), (''create_date'', JString (CreateDate u))]"

definition cotacao_json :: "usdbrl \<Rightarrow> json" where
  "cotacao_json u = JObject [(''USDBRL'', usdbrl_json u)]"

text \<open>The same payload with every key renamed by \<open>g\<close>, at every depth.\<close>

fun json_map_keys :: "(bytes \<Rightarrow> bytes) \<Rightarrow> json \<Rightarrow> json" where
  "json_map_keys g (JArray js) = JArray (map (json_map_keys g) js)"
| "json_map_keys g (JObject kvs) = JObject (map (\<lambda>(k, v). (g k, json_map_keys g v)) kvs)"
| "json_map_keys g j = j"

section \<open>Decoding lemmas\<close>

text \<open>The API's keys are exactly the struct's tags, in declaration order.\<close>

lemma usdbrl_json_tags:
  "usdbrl_json u = JObject (map (\<lambda>f. (field_tag f, JString (get_field f u))) usdbrl_fields)"
  by (simp add: usdbrl_json_def usdbrl_fields_def)

lemma lookup_field_usdbrl_tag [simp]:
  "lookup_field usdbrl_tags (field_tag f) = Some f"
  by (cases f) (simp_all add: lookup_field_def usdbrl_tags_def usdbrl_fields_def)

lemma get_set_field [simp]: "get_field f (set_field f s u) = s"
  by (cases f) simp_all

lemma decode_member_tag [simp]:
  "decode_member (field_tag f, JString s) (u, e) = (set_field f s u, e)"
  by (simp add: decode_member_def)

lemma usdbrl_fields_all: "f \<in> set usdbrl_fields"
  by (cases f) (simp_all add: usdbrl_fields_def)

lemma fold_tag_inj: "fold_name (field_tag f) = fold_name (field_tag f') \<Longrightarrow> f = f'"
proof -
  assume eq: "fold_name (field_tag f) = fold_name (field_tag f')"
  have "distinct (map (\<lambda>f. fold_name (field_tag f)) usdbrl_fields)"
    by (simp add: usdbrl_fields_def ascii_upper_def)
  then have "inj_on (\<lambda>f. fold_name (field_tag f)) (set usdbrl_fields)"
    by (simp add: distinct_map)
  with eq show ?thesis by (simp add: inj_on_def usdbrl_fields_all)
qed

lemma lookup_field_usdbrl_fold:
  "fold_name k = fold_name (field_tag f) \<Longrightarrow> lookup_field usdbrl_tags k = Some f"
proof -
  assume k: "fold_name k = fold_name (field_tag f)"
  show ?thesis
  proof (cases "find (\<lambda>(f, t). t = k) usdbrl_tags")
    case None
    have "find (\<lambda>(f', t). fold_name t = fold_name k) usdbrl_tags \<noteq> None"
      using k usdbrl_fields_all [of f] by (auto simp: usdbrl_tags_def find_None_iff)
    then obtain f' t where fnd: "find (\<lambda>(f', t). fold_name t = fold_name k) usdbrl_tags = Some (f', t)"
      by auto
    then have "t = field_tag f'" "fold_name t = fold_name k"
      by (auto simp: find_Some_iff usdbrl_tags_def)
    then have "f' = f" using k fold_tag_inj by simp
    then show ?thesis using None fnd by (simp add: lookup_field_def)
  next
    case (Some ft)
    then obtain f' where "ft = (f', k)" and "k = field_tag f'"
      by (auto simp: find_Some_iff usdbrl_tags_def)
    then have "f' = f" using k fold_tag_inj by simp
    then show ?thesis using Some \<open>ft = (f', k)\<close> by (simp add: lookup_field_def)
  qed
qed

lemma fold_decode_fields_keys:
  "(\<forall>f. lookup_field usdbrl_tags (key f) = Some f) \<Longrightarrow>
   fold decode_member (map (\<lambda>f. (key f, JString (get_field f u))) usdbrl_fields) (u0, e) = (u, e)"
  by (cases u) (simp add: usdbrl_fields_def decode_member_def)

lemma fold_decode_all_fields:
  "fold decode_member (map (\<lambda>f. (field_tag f, JString (get_field f u))) usdbrl_fields) (u0, e) = (u, e)"
  using fold_decode_fields_keys [where key = field_tag] by simp

lemma lookup_field_cotacao:
  "lookup_field cotacao_tags k = (if fold_name k = ''USDBRL'' then Some () else None)"
  by (auto simp: lookup_field_def cotacao_tags_def ascii_upper_def)

lemma decode_cotacao_json [simp]:
  "decode_cotacao (cotacao_json u) c = (c\<lparr>Usdbrl := u\<rparr>, False)"
  by (simp add: cotacao_json_def usdbrl_json_tags decode_top_member_def lookup_field_cotacao
      fold_decode_all_fields ascii_upper_def)

lemma fold_top_member_skip:
  "\<forall>k \<in> fst ` set kvs. fold_name k \<noteq> ''USDBRL'' \<Longrightarrow> fold decode_top_member kvs ce = ce"
  by (induction kvs arbitrary: ce) (auto simp: decode_top_member_def lookup_field_cotacao)

text \<open>
  C23: decoding is lenient about the payload's shape: an object with no key that folds
  to \<open>USDBRL\<close> (such as the API's error object) decodes with no error and leaves
  the target as it was, so the caller gets the zero quote and no sign of failure.
\<close>

theorem Unmarshal_without_pair_key:
  "\<forall>k \<in> fst ` set kvs. fold_name k \<noteq> ''USDBRL'' \<Longrightarrow> Unmarshal (Some (JObject kvs)) c = (c, False)"
  by (simp add: fold_top_member_skip)

text \<open>
  C24: keys are matched without regard to ASCII case, as Go's \<open>foldName\<close> does: the
  upstream's payload with its keys renamed to any variants that fold to the same names
  (such as \<open>usdbrl\<close> or \<open>BID\<close>) decodes to the same quote, with no error.
\<close>

theorem Unmarshal_case_insensitive:
  assumes "\<forall>k. fold_name (g k) = fold_name k"
  shows "Unmarshal (Some (json_map_keys g (cotacao_json u))) zero_cotacao = (\<lparr>Usdbrl = u\<rparr>, False)"
proof -
  have "\<forall>f. lookup_field usdbrl_tags (g (field_tag f)) = Some f"
    using assms lookup_field_usdbrl_fold by simp
  then show ?thesis using assms
    by (simp add: cotacao_json_def usdbrl_json_tags decode_top_member_def lookup_field_cotacao
        fold_decode_fields_keys [where key = "\<lambda>f. g (field_tag f)"] ascii_upper_def comp_def zero_cotacao_def)
qed

section \<open>Witnesses\<close>

theorem Unmarshal_case_insensitive_witness:
  "Unmarshal (Some (json_map_keys (\<lambda>k. if k = ''USDBRL'' then ''usdbrl'' else if k = ''bid'' then ''BID'' else k)
     (cotacao_json (zero_usdbrl\<lparr>Bid := ''5.43''\<rparr>)))) zero_cotacao
   = (\<lparr>Usdbrl = zero_usdbrl\<lparr>Bid := ''5.43''\<rparr>\<rparr>, False)"
proof -
  have "\<forall>k. fold_name (if k = ''USDBRL'' then ''usdbrl'' else if k = ''bid'' then ''BID'' else k) = fold_name k"
    by (simp add: ascii_upper_def char_of_def bit_simps)
  then show ?thesis by (rule Unmarshal_case_insensitive)
qed

theorem Unmarshal_without_pair_key_witness:
  "Unmarshal (Some (JObject [(''status'', JNumber ''404''), (''code'', JString ''CoinNotExists'')]))
     zero_cotacao = (zero_cotacao, False)"
  using Unmarshal_without_pair_key [of "[(''status'', JNumber ''404''), (''code'', JString ''CoinNotExists'')]"
      zero_cotacao]
  by (simp add: ascii_upper_def)

end
