(* ===== verification/Store.thy ===== *)
theory Store
  imports Quote
begin

text \<open>
  The SQLite store of \<open>src/server/main.go\<close>: the table \<open>cotacao\<close> that
  \<open>createTable\<close> declares (an \<open>AUTOINCREMENT\<close> integer key and eleven text
  columns), the statement \<open>insertCotacao\<close> prepares and the arguments it binds, and
  the two Go functions themselves. The database is a record: the table's rows in
  insertion order (\<open>None\<close> while the table does not exist) and the table's entry in
  \<open>sqlite_sequence\<close>, the largest key ever handed out. A failure of the database
  itself (an I/O error, a lock held past the driver's busy timeout) is an input of the
  model, \<open>store_fault\<close>; the failures SQLite reports for the statements themselves
  (no such table, no such column, a full key space) are computed.
\<close>

section \<open>Database state\<close>

record row =
  idCotacao :: int
  row_values :: "bytes option list"   \<comment> \<open>the text columns in table order; \<open>None\<close> is NULL\<close>

record db =
  cotacao_table :: "row list option"
  cotacao_seq :: int

text \<open>SQLite's rowid is a signed 64-bit integer.\<close>

definition max_rowid :: int where
  "max_rowid = 2 ^ 63 - 1"

definition empty_db :: db where
  "empty_db = \<lparr>cotacao_table = None, cotacao_seq = 0\<rparr>"

section \<open>The statements of the source\<close>

text \<open>The text columns of \<open>CREATE TABLE IF NOT EXISTS cotacao\<close>, in order.\<close>

definition cotacao_columns :: "bytes list" where
  "cotacao_columns = [''Code'', ''Codein'', ''Name'', ''High'', ''Low'', ''VarBid'', ''PctChange'',
     ''Bid'', ''Ask'', ''Timestamp'', ''CreateDate'']"

text \<open>The column list and the number of \<open>?\<close> placeholders of the \<open>INSERT\<close>.\<close>

definition insert_columns :: "bytes list" where
  "insert_columns = [''Code'', ''Codein'', ''Name'', ''High'', ''Low'', ''VarBid'', ''PctChange'',
     ''Bid'', ''Ask'', ''Timestamp'', ''CreateDate'']"

definition insert_placeholders :: nat where
  "insert_placeholders = 11"

text \<open>The arguments \<open>statement.Exec\<close> binds, in order.\<close>

definition insert_args :: "CotacaoUSDBRL \<Rightarrow> bytes list" where
  "insert_args c =
     [Code (Usdbrl c), Codein (Usdbrl c), Name (Usdbrl c), High (Usdbrl c), Low (Usdbrl c),
      VarBid (Usdbrl c), PctChange (Usdbrl c), Bid (Usdbrl c), Ask (Usdbrl c),
      Timestamp (Usdbrl c), CreateDate (Usdbrl c)]"

section \<open>SQL semantics\<close>

datatype sql_error =
    No_such_table | No_such_column | Values_count_mismatch | Args_count_mismatch | Sqlite_full

definition create_table_if_not_exists :: "db \<Rightarrow> db" where
  "create_table_if_not_exists d =
     (case cotacao_table d of None \<Rightarrow> d\<lparr>cotacao_table := Some []\<rparr> | Some _ \<Rightarrow> d)"

text \<open>\<open>db.Prepare\<close> of the \<open>INSERT\<close>: SQLite checks the table, the columns, and that
  there are as many values as columns.\<close>

definition prepare_insert :: "bytes list \<Rightarrow> nat \<Rightarrow> db \<Rightarrow> sql_error option" where
  "prepare_insert cols nph d =
     (if cotacao_table d = None then Some No_such_table
      else if \<not> set cols \<subseteq> set cotacao_columns then Some No_such_column
      else if length cols \<noteq> nph then Some Values_count_mismatch
      else None)"

text \<open>
  \<open>statement.Exec(args...)\<close>: \<open>database/sql\<close> checks the argument count; SQLite
  picks the key \<open>AUTOINCREMENT\<close> prescribes (one more than the largest of the keys
  in the table and the \<open>sqlite_sequence\<close> entry, \<open>SQLITE_FULL\<close> past the largest
  rowid), fills the named columns with the arguments and the others with NULL.
\<close>

definition next_rowid :: "db \<Rightarrow> row list \<Rightarrow> int" where
  "next_rowid d rows = fold max (map idCotacao rows) (cotacao_seq d) + 1"

definition exec_insert :: "bytes list \<Rightarrow> nat \<Rightarrow> bytes list \<Rightarrow> db \<Rightarrow> sql_error + db" where
  "exec_insert cols nph args d =
     (if length args \<noteq> nph then Inl Args_count_mismatch
      else case cotacao_table d of
        None \<Rightarrow> Inl No_such_table
      | Some rows \<Rightarrow>
          (let k = next_rowid d rows in
           if max_rowid < k then Inl Sqlite_full
           else Inr (d\<lparr>cotacao_table := Some (rows @ [\<lparr>idCotacao = k,
                        row_values = map (map_of (zip cols args)) cotacao_columns\<rparr>]),
                      cotacao_seq := k\<rparr>)))"

section \<open>The Go functions\<close>

text \<open>
  A fault of the database at one step of a persistence: the \<open>Prepare\<close> or the
  \<open>Exec\<close> of either statement fails. \<open>sql.Open\<close> of the sqlite3 driver connects
  lazily and does not fail here.
\<close>

datatype store_fault =
    No_fault | Fail_prepare_create | Fail_exec_create | Fail_prepare_insert | Fail_exec_insert

text \<open>
  \<open>createTable\<close>: a failed \<open>Prepare\<close> is \<open>log.Fatal\<close> (\<open>Exit\<close>); the error of
  \<open>Exec\<close> is discarded, so a failed \<open>Exec\<close> returns with the table as it was.
\<close>

definition createTable :: "store_fault \<Rightarrow> db \<Rightarrow> db go_result" where
  "createTable f d =
     (if f = Fail_prepare_create then Exit
      else if f = Fail_exec_create then Ret d
      else Ret (create_table_if_not_exists d))"

text \<open>\<open>insertCotacao\<close>: an error of \<open>Prepare\<close> or of \<open>Exec\<close> is \<open>log.Fatalln\<close>.\<close>

definition insertCotacao :: "store_fault \<Rightarrow> CotacaoUSDBRL \<Rightarrow> db \<Rightarrow> db go_result" where
  "insertCotacao f c d =
     (if f = Fail_prepare_insert \<or> prepare_insert insert_columns insert_placeholders d \<noteq> None then Exit
      else if f = Fail_exec_insert then Exit
      else case exec_insert insert_columns insert_placeholders (insert_args c) d of
             Inl _ \<Rightarrow> Exit
           | Inr d' \<Rightarrow> Ret d')"

section \<open>Consistency of the store\<close>

text \<open>A quote's fields in declaration order, which is also the table's column order.\<close>

definition quote_columns :: "usdbrl \<Rightarrow> bytes list" where
  "quote_columns u = map (\<lambda>f. get_field f u) usdbrl_fields"

definition db_inv :: "db \<Rightarrow> bool" where
  "db_inv d \<longleftrightarrow> 0 \<le> cotacao_seq d \<and> cotacao_seq d \<le> max_rowid \<and>
     (case cotacao_table d of
        None \<Rightarrow> cotacao_seq d = 0
      | Some rows \<Rightarrow> sorted_wrt (<) (map idCotacao rows)
          \<and> (\<forall>r \<in> set rows. 0 < idCotacao r \<and> idCotacao r \<le> cotacao_seq d
                 \<and> length (row_values r) = length cotacao_columns))"

text \<open>
  The abstract insertion the persistence step is meant to perform: append one row
  with the next key and the quote's fields, creating the table if needed.
\<close>

definition rows_of :: "db \<Rightarrow> row list" where
  "rows_of d = (case cotacao_table d of None \<Rightarrow> [] | Some rows \<Rightarrow> rows)"

definition insert_row :: "db \<Rightarrow> usdbrl \<Rightarrow> db" where
  "insert_row d u =
     d\<lparr>cotacao_table := Some (rows_of d @ [\<lparr>idCotacao = cotacao_seq d + 1,
                                            row_values = map Some (quote_columns u)\<rparr>]),
       cotacao_seq := cotacao_seq d + 1\<rparr>"

section \<open>Lemmas on the Go functions\<close>

lemma insert_row_values:
  "map (map_of (zip insert_columns (insert_args c))) cotacao_columns = map Some (quote_columns (Usdbrl c))"
  by (simp add: insert_columns_def insert_args_def cotacao_columns_def quote_columns_def usdbrl_fields_def)

lemma prepare_insert_ok:
  "prepare_insert insert_columns insert_placeholders d = None \<longleftrightarrow> cotacao_table d \<noteq> None"
  by (simp add: prepare_insert_def insert_columns_def cotacao_columns_def insert_placeholders_def)

lemma next_rowid_inv:
  "db_inv d \<Longrightarrow> cotacao_table d = Some rows \<Longrightarrow> next_rowid d rows = cotacao_seq d + 1"
  by (auto simp: db_inv_def next_rowid_def intro!: fold_max_bounded)

lemma length_insert_args [simp]: "length (insert_args c) = insert_placeholders"
  by (simp add: insert_args_def insert_placeholders_def)

lemma insertCotacao_no_table:
  "cotacao_table d = None \<Longrightarrow> insertCotacao f c d = Exit"
  by (simp add: insertCotacao_def prepare_insert_def)

lemma insertCotacao_create_fault:
  "insertCotacao Fail_exec_create c d = insertCotacao No_fault c d"
  by (simp add: insertCotacao_def)

lemma insertCotacao_No_fault:
  "db_inv d \<Longrightarrow> cotacao_table d \<noteq> None \<Longrightarrow> cotacao_seq d < max_rowid \<Longrightarrow>
   insertCotacao No_fault c d = Ret (insert_row d (Usdbrl c))"
  by (auto simp: insertCotacao_def prepare_insert_ok exec_insert_def next_rowid_inv insert_row_values
      Let_def insert_row_def rows_of_def)

text \<open>
  C20: \<open>insertCotacao\<close> with no fault, on a consistent database whose table exists and
  whose keys are not exhausted, appends exactly one row: its key is one more than the
  last key handed out, and its eleven columns hold the quote's fields in the table's
  column order (the \<open>INSERT\<close>'s column list and its arguments line up).
\<close>

theorem insertCotacao_appends:
  assumes "db_inv d" "cotacao_table d = Some rows" "cotacao_seq d < max_rowid"
  shows "insertCotacao No_fault c d =
    Ret (d\<lparr>cotacao_table := Some (rows @ [\<lparr>idCotacao = cotacao_seq d + 1,
                                         row_values = map Some (quote_columns (Usdbrl c))\<rparr>]),
         cotacao_seq := cotacao_seq d + 1\<rparr>)"
  using insertCotacao_No_fault [of d c] assms by (simp add: insert_row_def rows_of_def)

text \<open>
  C21: when the \<open>AUTOINCREMENT\<close> key space is exhausted (the last key handed out is
  the largest 64-bit rowid), every insertion ends the server process.
\<close>

theorem insertCotacao_full:
  "db_inv d \<Longrightarrow> cotacao_seq d = max_rowid \<Longrightarrow> insertCotacao f c d = Exit"
  by (auto simp: insertCotacao_def prepare_insert_ok exec_insert_def next_rowid_inv split: option.splits)

lemma insertCotacao_Ret:
  "insertCotacao f c d = Ret d' \<Longrightarrow> db_inv d \<Longrightarrow>
   cotacao_table d \<noteq> None \<and> cotacao_seq d < max_rowid \<and> d' = insert_row d (Usdbrl c)"
  by (auto simp: insertCotacao_def prepare_insert_ok exec_insert_def next_rowid_inv insert_row_values
      Let_def insert_row_def rows_of_def split: if_splits option.splits sum.splits)

lemma length_quote_columns [simp]: "length (quote_columns u) = length cotacao_columns"
  by (simp add: quote_columns_def usdbrl_fields_def cotacao_columns_def)

lemma insert_row_inv:
  assumes inv: "db_inv d" and room: "cotacao_seq d < max_rowid"
  shows "db_inv (insert_row d u)"
proof -
  have old: "\<forall>r \<in> set (rows_of d). 0 < idCotacao r \<and> idCotacao r \<le> cotacao_seq d
                 \<and> length (row_values r) = length cotacao_columns"
    and sorted: "sorted_wrt (<) (map idCotacao (rows_of d))" and seq: "0 \<le> cotacao_seq d"
    using inv by (auto simp: db_inv_def rows_of_def split: option.splits)
  have "\<forall>r \<in> set (rows_of d). 0 < idCotacao r \<and> idCotacao r \<le> cotacao_seq d + 1"
    using old by fastforce
  with old sorted seq room show ?thesis
    unfolding insert_row_def db_inv_def by (auto simp: sorted_wrt_append)
qed

lemma create_table_inv: "db_inv d \<Longrightarrow> db_inv (create_table_if_not_exists d)"
  by (simp add: db_inv_def create_table_if_not_exists_def split: option.splits)

lemma persist_No_fault:
  "db_inv d \<Longrightarrow> cotacao_seq d < max_rowid \<Longrightarrow>
   insertCotacao No_fault c (create_table_if_not_exists d) = Ret (insert_row d (Usdbrl c))"
  using insertCotacao_No_fault [of "create_table_if_not_exists d" c] create_table_inv [of d]
  by (auto simp: create_table_if_not_exists_def insert_row_def rows_of_def split: option.splits)

text \<open>
  C22: \<open>createTable\<close> without a fault always returns. It leaves the table in
  place with every row it held and the key counter unchanged, and creates an empty
  one only when there is none (\<open>IF NOT EXISTS\<close>). So the call in every request,
  and two requests calling it concurrently, are safe.
\<close>

theorem createTable_keeps_rows:
  "\<exists>d'. createTable No_fault d = Ret d' \<and> cotacao_table d' \<noteq> None
     \<and> rows_of d' = rows_of d \<and> cotacao_seq d' = cotacao_seq d"
  by (simp add: createTable_def create_table_if_not_exists_def rows_of_def split: option.splits)

lemma createTable_rows:
  "createTable f d = Ret d1 \<Longrightarrow> rows_of d1 = rows_of d \<and> cotacao_seq d1 = cotacao_seq d"
  by (auto simp: createTable_def create_table_if_not_exists_def rows_of_def split: if_splits option.splits)

lemma rows_of_insert_row [simp]:
  "rows_of (insert_row d u) =
     rows_of d @ [\<lparr>idCotacao = cotacao_seq d + 1, row_values = map Some (quote_columns u)\<rparr>]"
  by (simp add: insert_row_def rows_of_def)

lemma seq_insert_row [simp]: "cotacao_seq (insert_row d u) = cotacao_seq d + 1"
  by (simp add: insert_row_def)

lemma createTable_inv:
  "createTable f d = Ret d' \<Longrightarrow> db_inv d \<Longrightarrow> db_inv d'"
  by (auto simp: createTable_def create_table_inv split: if_splits)

theorem insertCotacao_appends_witness:
  "insertCotacao No_fault zero_cotacao \<lparr>cotacao_table = Some [], cotacao_seq = 0\<rparr> =
     Ret \<lparr>cotacao_table = Some [\<lparr>idCotacao = 1, row_values = [Some [], Some [], Some [], Some [], Some [], Some [], Some [], Some [], Some [], Some [], Some []]\<rparr>],
          cotacao_seq = 1\<rparr>"
  using insertCotacao_appends [of "\<lparr>cotacao_table = Some [], cotacao_seq = 0\<rparr>" "[]" zero_cotacao]
  by (simp add: db_inv_def max_rowid_def quote_columns_def usdbrl_fields_def zero_cotacao_def
      zero_usdbrl_def)

theorem insertCotacao_full_witness:
  "insertCotacao No_fault zero_cotacao \<lparr>cotacao_table = Some [], cotacao_seq = max_rowid\<rparr> = Exit"
  using insertCotacao_full [of "\<lparr>cotacao_table = Some [], cotacao_seq = max_rowid\<rparr>" No_fault zero_cotacao]
  by (simp add: db_inv_def max_rowid_def)

end
