(* ===== verification/JsonEncode.thy ===== *)
theory JsonEncode
  imports Prelude
begin

text \<open>
  The server answers with \<open>json.NewEncoder(w).Encode(cotacao.Usdbrl.Bid)\<close>: the
  JSON encoding of one Go string, followed by a newline. This theory models
  \<open>encoding/json\<close>'s string encoder as the encoder built by \<open>NewEncoder\<close> runs
  it (HTML escaping on; the escapes of Go 1.22 and later): ASCII bytes outside the
  HTML-safe set are escaped, a byte that does not start a valid UTF-8 sequence becomes
  the escape of U+FFFD, the runes U+2028 and U+2029 are escaped, every other rune is copied.
  Go's loop copies unescaped runs in slices; here the output is produced rune by rune,
  which gives the same bytes.
\<close>

section \<open>UTF-8 sequences\<close>

definition in_range :: "nat \<Rightarrow> nat \<Rightarrow> char \<Rightarrow> bool" where
  "in_range lo hi c \<longleftrightarrow> lo \<le> of_char c \<and> of_char c \<le> hi"

text \<open>
  The length of the rune \<open>utf8.DecodeRune\<close> reads at the front of a byte string,
  and \<open>0\<close> where it reports \<open>RuneError\<close> of width 1 (an invalid or truncated
  sequence, or an empty input). The bounds on the second byte are Go's
  \<open>acceptRanges\<close>: no overlong forms, no surrogates, nothing above U+10FFFF.
\<close>

fun utf8_rune_len :: "bytes \<Rightarrow> nat" where
  "utf8_rune_len [] = 0"
| "utf8_rune_len (b # bs) =
     (let x = (of_char b :: nat) in
      if x < 0x80 then 1
      else if x < 0xC2 then 0
      else if x < 0xE0 then
        (case bs of b1 # _ \<Rightarrow> if in_range 0x80 0xBF b1 then 2 else 0 | _ \<Rightarrow> 0)
      else if x < 0xF0 then
        (case bs of
           b1 # b2 # _ \<Rightarrow>
             if in_range (if x = 0xE0 then 0xA0 else 0x80) (if x = 0xED then 0x9F else 0xBF) b1
                \<and> in_range 0x80 0xBF b2 then 3 else 0
         | _ \<Rightarrow> 0)
      else if x < 0xF5 then
        (case bs of
           b1 # b2 # b3 # _ \<Rightarrow>
             if in_range (if x = 0xF0 then 0x90 else 0x80) (if x = 0xF4 then 0x8F else 0xBF) b1
                \<and> in_range 0x80 0xBF b2 \<and> in_range 0x80 0xBF b3 then 4 else 0
         | _ \<Rightarrow> 0)
      else 0)"

section \<open>The encoder\<close>

definition hex_digit :: "nat \<Rightarrow> char" where
  "hex_digit n = ''0123456789abcdef'' ! n"

text \<open>\<open>htmlSafeSet\<close>: printable ASCII and DEL, except \<open>"\<close>, \<open>\\<close>, \<open><\<close>, \<open>>\<close>, \<open>&\<close>.\<close>

definition html_safe :: "char \<Rightarrow> bool" where
  "html_safe c \<longleftrightarrow>
     0x20 \<le> (of_char c :: nat) \<and> (of_char c :: nat) < 0x80
     \<and> c \<notin> {CHR 0x22, CHR 0x5C, CHR 0x3C, CHR 0x3E, CHR 0x26}"

definition backslash :: char where
  "backslash = CHR 0x5C"

definition dquote :: char where
  "dquote = CHR 0x22"

text \<open>The escape of an ASCII byte that is not HTML-safe.\<close>

definition escape_ascii :: "char \<Rightarrow> bytes" where
  "escape_ascii b =
     (if b = backslash \<or> b = dquote then [backslash, b]
      else if b = CHR 0x08 then [backslash, CHR ''b'']
      else if b = CHR 0x0C then [backslash, CHR ''f'']
      else if b = CHR 0x0A then [backslash, CHR ''n'']
      else if b = CHR 0x0D then [backslash, CHR ''r'']
      else if b = CHR 0x09 then [backslash, CHR ''t'']
      else [backslash, CHR ''u'', CHR ''0'', CHR ''0'',
            hex_digit (of_char b div 16), hex_digit (of_char b mod 16)])"

definition line_separators :: "bytes list" where
  "line_separators = [[CHR 0xE2, CHR 0x80, CHR 0xA8], [CHR 0xE2, CHR 0x80, CHR 0xA9]]"

function encode_runes :: "bytes \<Rightarrow> bytes" where
  "encode_runes [] = []"
| "encode_runes (b # bs) =
     (if of_char b < (0x80::nat) then
        (if html_safe b then [b] else escape_ascii b) @ encode_runes bs
      else
        (let n = utf8_rune_len (b # bs) in
         if n = 0 then backslash # ''ufffd'' @ encode_runes bs
         else if take n (b # bs) \<in> set line_separators then
           [backslash, CHR ''u'', CHR ''2'', CHR ''0'', CHR ''2'',
            hex_digit (of_char (last (take n (b # bs))) mod 16)] @ encode_runes (drop n (b # bs))
         else take n (b # bs) @ encode_runes (drop n (b # bs))))"
  by pat_completeness auto
termination
  by (relation "measure length") auto

text \<open>\<open>encodeState.string\<close>: the runes between double quotes.\<close>

definition json_string :: "bytes \<Rightarrow> bytes" where
  "json_string s = dquote # encode_runes s @ [dquote]"

text \<open>\<open>(*Encoder).Encode\<close> of a string: its encoding and a newline.\<close>

definition Encode :: "bytes \<Rightarrow> bytes" where
  "Encode s = json_string s @ [CHR 0x0A]"

section \<open>What the encoder emits\<close>

text \<open>
  A byte that may appear between the quotes of an encoded string: no control byte,
  and none of the three bytes that HTML escaping removes.
\<close>

definition json_body_byte :: "char \<Rightarrow> bool" where
  "json_body_byte c \<longleftrightarrow> 0x20 \<le> (of_char c :: nat) \<and> c \<notin> {CHR 0x3C, CHR 0x3E, CHR 0x26}"

lemma html_safe_ascii: "html_safe c \<Longrightarrow> of_char c < (0x80::nat)"
  by (simp add: html_safe_def)

lemma html_safe_body: "html_safe c \<Longrightarrow> json_body_byte c"
  by (auto simp: html_safe_def json_body_byte_def)

lemma hex_digit_safe: "n < 16 \<Longrightarrow> html_safe (hex_digit n)"
proof -
  assume "n < 16"
  moreover have "list_all html_safe ''0123456789abcdef''" by (simp add: html_safe_def)
  ultimately show ?thesis by (simp add: hex_digit_def list_all_length)
qed

lemma escape_ascii_bytes:
  "of_char b < (0x80::nat) \<Longrightarrow> c \<in> set (escape_ascii b) \<Longrightarrow> json_body_byte c"
proof -
  assume "of_char b < (0x80::nat)" and c: "c \<in> set (escape_ascii b)"
  then have "of_char b div 16 < (16::nat)" by simp
  then have "json_body_byte (hex_digit (of_char b div 16))" "json_body_byte (hex_digit (of_char b mod 16))"
    by (simp_all add: html_safe_body hex_digit_safe)
  with c show ?thesis
    by (auto simp: escape_ascii_def json_body_byte_def backslash_def dquote_def split: if_splits)
qed

lemma utf8_rune_bytes:
  "0x80 \<le> (of_char b :: nat) \<Longrightarrow> c \<in> set (take (utf8_rune_len (b # bs)) (b # bs)) \<Longrightarrow>
   0x80 \<le> (of_char c :: nat)"
  by (auto simp: Let_def in_range_def split: list.splits if_splits dest!: in_set_takeD)

lemma encode_runes_safe: "\<forall>c \<in> set s. html_safe c \<Longrightarrow> encode_runes s = s"
proof (induction s rule: encode_runes.induct)
  case 1
  then show ?case by simp
next
  case (2 b bs)
  then show ?case by (simp add: html_safe_ascii)
qed

text \<open>
  C25: a string made of HTML-safe ASCII bytes, such as the decimal bid the upstream
  sends, is encoded as itself between double quotes, followed by the newline of
  \<open>Encode\<close>.
\<close>

theorem Encode_safe:
  "\<forall>c \<in> set s. html_safe c \<Longrightarrow> Encode s = dquote # s @ [dquote, CHR 0x0A]"
  by (simp add: Encode_def json_string_def encode_runes_safe)

text \<open>
  C26: whatever bytes the string holds (invalid UTF-8 included), \<open>Encode\<close> writes
  a double quote, a body with no control byte and none of \<open><\<close>, \<open>>\<close>,
  \<open>&\<close>, a double quote and a newline.
\<close>

theorem Encode_bytes:
  "\<exists>b. Encode s = dquote # b @ [dquote, CHR 0x0A] \<and> list_all json_body_byte b"
proof -
  have "c \<in> set (encode_runes s) \<Longrightarrow> json_body_byte c" for c
  proof (induction s rule: encode_runes.induct)
    case 1
    then show ?case by simp
  next
    case (2 b bs)
    show ?case
    proof (cases "of_char b < (0x80::nat)")
      case True
      then show ?thesis using 2 escape_ascii_bytes [OF True] html_safe_body
        by (auto split: if_splits)
    next
      case False
      then have big: "c \<in> set (take (utf8_rune_len (b # bs)) (b # bs)) \<Longrightarrow> json_body_byte c"
        using utf8_rune_bytes [where b = b and bs = bs and c = c] by (auto simp: json_body_byte_def)
      have lits: "\<forall>c \<in> set (backslash # ''ufffd''). json_body_byte c"
        "\<forall>c \<in> set [backslash, CHR ''u'', CHR ''2'', CHR ''0'']. json_body_byte c"
        by (simp_all add: json_body_byte_def backslash_def)
      have hx: "json_body_byte (hex_digit (of_char x mod 16))" for x
        by (simp add: html_safe_body hex_digit_safe)
      show ?thesis using 2 False big lits hx
        by (auto simp: Let_def simp del: utf8_rune_len.simps split: if_splits)
    qed
  qed
  then show ?thesis by (simp add: Encode_def json_string_def list_all_iff)
qed

section \<open>Witnesses\<close>

theorem Encode_safe_witness:
  "Encode ''5.43'' = dquote # ''5.43'' @ [dquote, CHR 0x0A]"
  using Encode_safe [of "''5.43''"] by (simp add: html_safe_def)

end
