(* ===== verification/Http.thy ===== *)
theory Http
  imports Prelude
begin

text \<open>
  The interface between the two programs: the HTTP response the server's handler
  writes and the client's \<open>http.DefaultClient.Do\<close> returns. Only what the code sets
  or reads is kept: the status code, the \<open>Content-Type\<close> header and the body bytes.
\<close>

record http_response =
  status :: nat
  content_type :: bytes
  body :: bytes

end
