(* ===== verification/Server.thy ===== *)
theory Server
  imports Deadline Store JsonEncode Http
begin

text \<open>
  The request handler of \<open>src/server/main.go\<close> and the functions it calls:
  \<open>AcessoApiCotacao\<close> (deadline pre-check, then \<open>GetApiCotacao\<close>: one HTTP GET to
  the quote API, body read, \<open>json.Unmarshal\<close>), \<open>GravarDados\<close> (deadline
  pre-check, then \<open>createTable\<close> and \<open>insertCotacao\<close> of \<open>Store\<close>), and
  \<open>cotacao\<close>, which composes them and writes the response. The server process is a
  record: its database, its standard error, and whether it is still running
  (\<open>log.Fatal\<close> ends it). What the network and the clock do is an input,
  \<open>req_env\<close>: the instants at which the two \<open>select\<close> statements run, the
  upstream's reply, and the database fault, if any.
\<close>

section \<open>Server state and environment\<close>

record server =
  srv_db :: db
  srv_log :: "log_event list"
  srv_up :: bool

definition log_srv :: "log_event \<Rightarrow> server \<Rightarrow> server" where
  "log_srv e s = s\<lparr>srv_log := srv_log s @ [e]\<rparr>"

text \<open>\<open>log.Fatal\<close>: the message, then \<open>os.Exit(1)\<close>.\<close>

definition server_exit :: "server \<Rightarrow> server" where
  "server_exit s = (log_srv Log_fatal s)\<lparr>srv_up := False\<rparr>"

text \<open>
  The upstream's answer to \<open>http.Get\<close>: a transport error (\<open>resp\<close> is nil), or
  a response with a status code, whether \<open>io.ReadAll\<close> failed part-way, and the
  parse of the bytes that were read (\<open>None\<close>: not JSON).
\<close>

datatype upstream_reply =
    Transport_error
  | Reply nat bool "json option"

record req_env =
  t_start :: time
  t_fetch :: time
  upstream :: upstream_reply
  t_persist :: time
  fault :: store_fault

datatype handler_outcome = Responded http_response | Handler_panic | Server_exit

section \<open>Upstream fetch\<close>

text \<open>
  \<open>GetApiCotacao\<close>. On a transport error the error is printed and then
  \<open>defer req.Body.Close()\<close> evaluates \<open>req.Body\<close> on a nil \<open>req\<close>: a panic,
  so the function never returns an error. Otherwise the status code is not looked at,
  a read error and a decode error are printed, and the (possibly zero) quote is
  returned with a nil error.
\<close>

definition GetApiCotacao :: "upstream_reply \<Rightarrow> server \<Rightarrow> (go_error + CotacaoUSDBRL) go_result \<times> server" where
  "GetApiCotacao r s =
     (case r of
        Transport_error \<Rightarrow> (Panic, log_srv Err_request s)
      | Reply _ read_err payload \<Rightarrow>
          (let s1 = (if read_err then log_srv Err_read_body s else s);
               (data, perr) = Unmarshal payload zero_cotacao;
               s2 = (if perr then log_srv Err_parse s1 else s1)
           in (Ret (Inr data), log_srv Log_api_ok s2)))"

text \<open>\<open>AcessoApiCotacao\<close>: the pre-check of the deadline, then the fetch.\<close>

definition AcessoApiCotacao ::
  "go_context \<Rightarrow> time \<Rightarrow> upstream_reply \<Rightarrow> server \<Rightarrow> (go_error + CotacaoUSDBRL) go_result \<times> server" where
  "AcessoApiCotacao ctx t r s =
     (case ctx_err ctx t of
        Some e \<Rightarrow> (Ret (Inl e), log_srv Log_api_timeout s)
      | None \<Rightarrow> GetApiCotacao r s)"

section \<open>Persistence\<close>

text \<open>
  \<open>GravarDados\<close>: past the deadline it only logs (the \<open>ctx.Err()\<close> value is
  dropped); otherwise it runs \<open>createTable\<close> and \<open>insertCotacao\<close>, whose fatal
  errors end the process, and logs success.
\<close>

definition GravarDados ::
  "CotacaoUSDBRL \<Rightarrow> go_context \<Rightarrow> time \<Rightarrow> store_fault \<Rightarrow> server \<Rightarrow> unit go_result \<times> server" where
  "GravarDados c ctx t f s =
     (if ctx_done ctx t then (Ret (), log_srv Log_persist_timeout s)
      else case createTable f (srv_db s) of
        Exit \<Rightarrow> (Exit, server_exit s)
      | Panic \<Rightarrow> (Panic, s)
      | Ret d1 \<Rightarrow>
          (case insertCotacao f c d1 of
             Exit \<Rightarrow> (Exit, server_exit (s\<lparr>srv_db := d1\<rparr>))
           | Panic \<Rightarrow> (Panic, s\<lparr>srv_db := d1\<rparr>)
           | Ret d2 \<Rightarrow> (Ret (), log_srv Log_persist_ok (s\<lparr>srv_db := d2\<rparr>))))"

section \<open>The handler\<close>

text \<open>\<open>http.Error(w, msg, code)\<close>: plain text, the message and a newline.\<close>

definition http_Error :: "bytes \<Rightarrow> nat \<Rightarrow> http_response" where
  "http_Error msg code =
     \<lparr>status = code, content_type = ''text/plain; charset=utf-8'', body = msg @ [CHR 0x0A]\<rparr>"

text \<open>The success response: the header, \<open>WriteHeader(http.StatusOK)\<close>, then \<open>Encode\<close>.\<close>

definition ok_json :: "bytes \<Rightarrow> http_response" where
  "ok_json bid = \<lparr>status = 200, content_type = ''application/json'', body = Encode bid\<rparr>"

text \<open>
  \<open>cotacao\<close>: a context with the 210 ms budget, the fetch, the persistence under the
  same context, the response. A panic in the handler is recovered by \<open>net/http\<close>,
  which logs it and drops the connection without a response.
\<close>

definition cotacao :: "req_env \<Rightarrow> server \<Rightarrow> handler_outcome \<times> server" where
  "cotacao env s =
     (let ctx = WithTimeout (t_start env) server_timeout in
      case AcessoApiCotacao ctx (t_fetch env) (upstream env) s of
        (Panic, s1) \<Rightarrow> (Handler_panic, log_srv Log_handler_panic s1)
      | (Exit, s1) \<Rightarrow> (Server_exit, s1)
      | (Ret (Inl _), s1) \<Rightarrow>
          (Responded (http_Error ''Erro ao consumir API'' 408), log_srv Log_api_error s1)
      | (Ret (Inr c), s1) \<Rightarrow>
          (case GravarDados c ctx (t_persist env) (fault env) s1 of
             (Panic, s2) \<Rightarrow> (Handler_panic, log_srv Log_handler_panic s2)
           | (Exit, s2) \<Rightarrow> (Server_exit, s2)
           | (Ret _, s2) \<Rightarrow> (Responded (ok_json (Bid (Usdbrl c))), s2)))"

section \<open>Example inputs\<close>

text \<open>A quote, a fresh server, and request environments for the witnesses below.\<close>

definition demo_quote :: usdbrl where
  "demo_quote = zero_usdbrl\<lparr>Code := ''USD'', Codein := ''BRL'', Bid := ''5.43'', Ask := ''5.44''\<rparr>"

definition demo_server :: server where
  "demo_server = \<lparr>srv_db = empty_db, srv_log = [], srv_up = True\<rparr>"

definition demo_env :: "time \<Rightarrow> time \<Rightarrow> upstream_reply \<Rightarrow> store_fault \<Rightarrow> req_env" where
  "demo_env tf tp r f = \<lparr>t_start = 0, t_fetch = tf, upstream = r, t_persist = tp, fault = f\<rparr>"

declare demo_server_def [example_defs] demo_env_def [example_defs]

section \<open>Lemmas on the handler and its callees\<close>

lemma log_srv_db [simp]: "srv_db (log_srv e s) = srv_db s"
  by (simp add: log_srv_def)

lemma log_srv_up [simp]: "srv_up (log_srv e s) = srv_up s"
  by (simp add: log_srv_def)

lemma AcessoApiCotacao_expired:
  "ctx_done ctx t \<Longrightarrow> AcessoApiCotacao ctx t r s = (Ret (Inl DeadlineExceeded), log_srv Log_api_timeout s)"
  by (simp add: AcessoApiCotacao_def ctx_err_def)

lemma AcessoApiCotacao_live:
  "\<not> ctx_done ctx t \<Longrightarrow> AcessoApiCotacao ctx t r s = GetApiCotacao r s"
  by (simp add: AcessoApiCotacao_def ctx_err_def)

lemma GetApiCotacao_Reply:
  "\<exists>l. GetApiCotacao (Reply st re p) s = (Ret (Inr (fst (Unmarshal p zero_cotacao))), s\<lparr>srv_log := l\<rparr>)"
  by (auto simp: GetApiCotacao_def log_srv_def Let_def split: prod.splits)

lemma GetApiCotacao_Transport_error:
  "GetApiCotacao Transport_error s = (Panic, log_srv Err_request s)"
  by (simp add: GetApiCotacao_def)

lemma GravarDados_expired:
  "ctx_done ctx t \<Longrightarrow> GravarDados c ctx t f s = (Ret (), log_srv Log_persist_timeout s)"
  by (simp add: GravarDados_def)

lemma GravarDados_No_fault:
  "\<not> ctx_done ctx t \<Longrightarrow> db_inv (srv_db s) \<Longrightarrow> cotacao_seq (srv_db s) < max_rowid \<Longrightarrow>
   GravarDados c ctx t No_fault s =
     (Ret (), log_srv Log_persist_ok (s\<lparr>srv_db := insert_row (srv_db s) (Usdbrl c)\<rparr>))"
  by (simp add: GravarDados_def createTable_def persist_No_fault)

lemma GetApiCotacao_db:
  "GetApiCotacao r s = (x, s') \<Longrightarrow> srv_db s' = srv_db s"
  by (auto simp: GetApiCotacao_def log_srv_def Let_def split: upstream_reply.splits prod.splits)

lemma AcessoApiCotacao_db:
  "AcessoApiCotacao ctx t r s = (x, s') \<Longrightarrow> srv_db s' = srv_db s"
  by (auto simp: AcessoApiCotacao_def dest: GetApiCotacao_db split: option.splits)

text \<open>The in-time path, for any payload: the response carries the decoded bid and the
  decoded quote is stored. The claims below specialise it.\<close>

lemma cotacao_in_time:
  assumes "t_fetch env < t_start env + server_timeout"
    and "t_persist env < t_start env + server_timeout"
    and "upstream env = Reply st re p"
    and "fault env = No_fault"
    and "db_inv (srv_db s)" and "cotacao_seq (srv_db s) < max_rowid"
  shows "fst (cotacao env s) = Responded (ok_json (Bid (Usdbrl (fst (Unmarshal p zero_cotacao)))))
    \<and> srv_db (snd (cotacao env s)) = insert_row (srv_db s) (Usdbrl (fst (Unmarshal p zero_cotacao)))"
proof -
  obtain l where get: "GetApiCotacao (upstream env) s =
      (Ret (Inr (fst (Unmarshal p zero_cotacao))), s\<lparr>srv_log := l\<rparr>)"
    using GetApiCotacao_Reply [of st re p s] assms(3) by auto
  show ?thesis
    using assms get
    by (simp add: cotacao_def AcessoApiCotacao_live GravarDados_No_fault)
qed

text \<open>
  C1: a request whose two deadline checks pass, whose upstream answers with a
  payload of the API's shape (whatever its status code), and whose persistence meets
  no fault, is answered \<open>200\<close> with the JSON-encoded bid of that payload, and the
  quote is appended to the table as one new row.
\<close>

theorem cotacao_success:
  assumes "t_fetch env < t_start env + server_timeout"
    and "t_persist env < t_start env + server_timeout"
    and "upstream env = Reply st False (Some (cotacao_json u))"
    and "fault env = No_fault"
    and "db_inv (srv_db s)" and "cotacao_seq (srv_db s) < max_rowid"
  shows "fst (cotacao env s) = Responded (ok_json (Bid u))
    \<and> srv_db (snd (cotacao env s)) = insert_row (srv_db s) u"
  using cotacao_in_time [OF assms] by (simp add: zero_cotacao_def)

text \<open>
  C3: when the deadline has passed at the pre-check in \<open>AcessoApiCotacao\<close>,
  the upstream is not contacted, nothing is stored, the response is \<open>408\<close> with the
  plain-text body \<open>Erro ao consumir API\<close>, and exactly the two log lines are written.
\<close>

theorem cotacao_deadline_408:
  "t_start env + server_timeout \<le> t_fetch env \<Longrightarrow>
   cotacao env s = (Responded (http_Error ''Erro ao consumir API'' 408),
                    s\<lparr>srv_log := srv_log s @ [Log_api_timeout, Log_api_error]\<rparr>)"
  by (simp add: cotacao_def AcessoApiCotacao_expired log_srv_def)

text \<open>
  C4: when the pre-check of the fetch passes but the deadline has passed by the
  time persistence starts (in particular when the upstream call itself outlasted the
  budget), nothing is stored and the response is still \<open>200\<close> with the decoded bid:
  the 210 ms budget does not bound the upstream call.
\<close>

theorem cotacao_late_persistence:
  assumes "t_fetch env < t_start env + server_timeout"
    and "t_start env + server_timeout \<le> t_persist env"
    and "upstream env = Reply st re p"
  shows "fst (cotacao env s) = Responded (ok_json (Bid (Usdbrl (fst (Unmarshal p zero_cotacao)))))
    \<and> srv_db (snd (cotacao env s)) = srv_db s"
proof -
  obtain l where get: "GetApiCotacao (upstream env) s =
      (Ret (Inr (fst (Unmarshal p zero_cotacao))), s\<lparr>srv_log := l\<rparr>)"
    using GetApiCotacao_Reply [of st re p s] assms(3) by auto
  show ?thesis
    using assms get
    by (simp add: cotacao_def AcessoApiCotacao_live GravarDados_expired)
qed

text \<open>
  C5: a transport error of the upstream call, after the pre-check passed, makes
  the handler panic (nil \<open>resp\<close> dereferenced), so the client gets no response at
  all rather than a \<open>408\<close>; nothing is stored.
\<close>

theorem cotacao_transport_error:
  "t_fetch env < t_start env + server_timeout \<Longrightarrow> upstream env = Transport_error \<Longrightarrow>
   fst (cotacao env s) = Handler_panic \<and> srv_db (snd (cotacao env s)) = srv_db s"
  by (simp add: cotacao_def AcessoApiCotacao_live GetApiCotacao_Transport_error)

text \<open>
  C16: a body that is not JSON is not treated as a failed fetch: the response is
  \<open>200\<close> with the empty bid \<open>""\<close>, and a row of empty strings is stored.
\<close>

theorem cotacao_malformed_payload:
  assumes "t_fetch env < t_start env + server_timeout"
    and "t_persist env < t_start env + server_timeout"
    and "upstream env = Reply st re None"
    and "fault env = No_fault"
    and "db_inv (srv_db s)" and "cotacao_seq (srv_db s) < max_rowid"
  shows "fst (cotacao env s) = Responded (ok_json [])
    \<and> srv_db (snd (cotacao env s)) = insert_row (srv_db s) zero_usdbrl"
  using cotacao_in_time [OF assms] by (simp add: zero_cotacao_def zero_usdbrl_def)

text \<open>
  C17: the handler answers only \<open>200\<close> or \<open>408\<close>; it never sends another
  status (a panic or an exit sends no response at all).
\<close>

theorem cotacao_status:
  "fst (cotacao env s) = Responded r \<Longrightarrow> status r = 200 \<or> status r = 408"
  by (auto simp: cotacao_def Let_def http_Error_def ok_json_def
      split: prod.splits go_result.splits sum.splits)

text \<open>
  C18: a failed \<open>Prepare\<close> of either statement or a failed \<open>Exec\<close> of the
  insertion, during an in-time persistence, ends the server process; the request gets
  no response.
\<close>

theorem cotacao_store_failure:
  assumes "t_fetch env < t_start env + server_timeout"
    and "t_persist env < t_start env + server_timeout"
    and "upstream env = Reply st re p"
    and "fault env \<in> {Fail_prepare_create, Fail_prepare_insert, Fail_exec_insert}"
  shows "fst (cotacao env s) = Server_exit \<and> \<not> srv_up (snd (cotacao env s))"
proof -
  obtain l where get: "GetApiCotacao (upstream env) s =
      (Ret (Inr (fst (Unmarshal p zero_cotacao))), s\<lparr>srv_log := l\<rparr>)"
    using GetApiCotacao_Reply [of st re p s] assms(3) by auto
  show ?thesis
    using assms get
    by (auto simp: cotacao_def AcessoApiCotacao_live GravarDados_def createTable_def insertCotacao_def
        server_exit_def split: go_result.splits)
qed

text \<open>
  C19: the error of the \<open>CREATE TABLE\<close> \<open>Exec\<close> is discarded. When the
  table already exists the request goes on as if nothing had failed: \<open>200\<close> with
  the bid, and the quote stored. When it does not, the failure surfaces at the
  \<open>Prepare\<close> of the \<open>INSERT\<close>: \<open>log.Fatalln\<close> ends the server, the request
  gets no response, and the database is left as it was.
\<close>

theorem cotacao_exec_create_ignored:
  assumes "t_fetch env < t_start env + server_timeout"
    and "t_persist env < t_start env + server_timeout"
    and "upstream env = Reply st re p"
    and "fault env = Fail_exec_create"
    and "db_inv (srv_db s)" and "cotacao_seq (srv_db s) < max_rowid"
  shows "fst (cotacao env s) = (if cotacao_table (srv_db s) = None then Server_exit
                                else Responded (ok_json (Bid (Usdbrl (fst (Unmarshal p zero_cotacao))))))
    \<and> srv_db (snd (cotacao env s)) = (if cotacao_table (srv_db s) = None then srv_db s
                                       else insert_row (srv_db s) (Usdbrl (fst (Unmarshal p zero_cotacao))))"
proof -
  obtain l where get: "GetApiCotacao (upstream env) s =
      (Ret (Inr (fst (Unmarshal p zero_cotacao))), s\<lparr>srv_log := l\<rparr>)"
    using GetApiCotacao_Reply [of st re p s] assms(3) by auto
  show ?thesis
  proof (cases "cotacao_table (srv_db s) = None")
    case True
    then show ?thesis using assms get
      by (simp add: cotacao_def AcessoApiCotacao_live GravarDados_def createTable_def insertCotacao_no_table
          server_exit_def log_srv_def)
  next
    case False
    then show ?thesis using assms get
      by (simp add: cotacao_def AcessoApiCotacao_live GravarDados_def createTable_def insertCotacao_create_fault
          insertCotacao_No_fault log_srv_def)
  qed
qed

section \<open>Witnesses\<close>

lemma demo_server_inv: "db_inv (srv_db demo_server) \<and> cotacao_seq (srv_db demo_server) < max_rowid"
  by (simp add: example_defs empty_db_def db_inv_def max_rowid_def)

theorem cotacao_success_witness:
  "fst (cotacao (demo_env 1000 2000 (Reply 200 False (Some (cotacao_json demo_quote))) No_fault) demo_server)
     = Responded (ok_json ''5.43'')
   \<and> srv_db (snd (cotacao (demo_env 1000 2000 (Reply 200 False (Some (cotacao_json demo_quote))) No_fault)
       demo_server)) = insert_row empty_db demo_quote"
  using cotacao_success [of "demo_env 1000 2000 (Reply 200 False (Some (cotacao_json demo_quote))) No_fault"
      200 demo_quote demo_server] demo_server_inv
  by (simp add: example_defs demo_quote_def)

theorem cotacao_deadline_408_witness:
  "cotacao (demo_env 210000000 210000000 Transport_error No_fault) demo_server =
     (Responded (http_Error ''Erro ao consumir API'' 408),
      demo_server\<lparr>srv_log := [Log_api_timeout, Log_api_error]\<rparr>)"
  using cotacao_deadline_408 [of "demo_env 210000000 210000000 Transport_error No_fault" demo_server]
  by (simp add: example_defs)

theorem cotacao_late_persistence_witness:
  "fst (cotacao (demo_env 1000 300000000 (Reply 200 False (Some (cotacao_json demo_quote))) No_fault)
      demo_server) = Responded (ok_json ''5.43'')
   \<and> srv_db (snd (cotacao (demo_env 1000 300000000 (Reply 200 False (Some (cotacao_json demo_quote)))
      No_fault) demo_server)) = empty_db"
  using cotacao_late_persistence [of "demo_env 1000 300000000 (Reply 200 False (Some (cotacao_json demo_quote)))
      No_fault" 200 False "Some (cotacao_json demo_quote)" demo_server]
  by (simp add: example_defs demo_quote_def zero_cotacao_def)

theorem cotacao_transport_error_witness:
  "fst (cotacao (demo_env 1000 2000 Transport_error No_fault) demo_server) = Handler_panic
   \<and> srv_db (snd (cotacao (demo_env 1000 2000 Transport_error No_fault) demo_server)) = empty_db"
  using cotacao_transport_error [of "demo_env 1000 2000 Transport_error No_fault" demo_server]
  by (simp add: example_defs)

theorem cotacao_malformed_payload_witness:
  "fst (cotacao (demo_env 1000 2000 (Reply 200 True None) No_fault) demo_server) = Responded (ok_json [])
   \<and> srv_db (snd (cotacao (demo_env 1000 2000 (Reply 200 True None) No_fault) demo_server))
       = insert_row empty_db zero_usdbrl"
  using cotacao_malformed_payload [of "demo_env 1000 2000 (Reply 200 True None) No_fault" 200 True
      demo_server] demo_server_inv
  by (simp add: example_defs)

theorem cotacao_status_witness:
  "fst (cotacao (demo_env 1000 2000 (Reply 200 False None) No_fault) demo_server) = Responded (ok_json [])
   \<and> status (ok_json []) = 200"
proof -
  have r: "fst (cotacao (demo_env 1000 2000 (Reply 200 False None) No_fault) demo_server) = Responded (ok_json [])"
    using cotacao_in_time [of "demo_env 1000 2000 (Reply 200 False None) No_fault" 200 False None demo_server]
      demo_server_inv
    by (simp add: example_defs zero_cotacao_def zero_usdbrl_def)
  have "status (ok_json []) = 200 \<or> status (ok_json []) = 408"
    using cotacao_status [OF r] .
  then show ?thesis using r by (simp add: ok_json_def)
qed

theorem cotacao_store_failure_witness:
  "fst (cotacao (demo_env 1000 2000 (Reply 200 False None) Fail_prepare_create) demo_server) = Server_exit
   \<and> \<not> srv_up (snd (cotacao (demo_env 1000 2000 (Reply 200 False None) Fail_prepare_create) demo_server))"
  using cotacao_store_failure [of "demo_env 1000 2000 (Reply 200 False None) Fail_prepare_create" 200 False None
      demo_server]
  by (simp add: example_defs)


theorem cotacao_exec_create_ignored_witness:
  "fst (cotacao (demo_env 1000 2000 (Reply 200 False (Some (cotacao_json demo_quote))) Fail_exec_create)
      (demo_server\<lparr>srv_db := \<lparr>cotacao_table = Some [], cotacao_seq = 0\<rparr>\<rparr>)) = Responded (ok_json ''5.43'')
   \<and> srv_db (snd (cotacao (demo_env 1000 2000 (Reply 200 False (Some (cotacao_json demo_quote))) Fail_exec_create)
      (demo_server\<lparr>srv_db := \<lparr>cotacao_table = Some [], cotacao_seq = 0\<rparr>\<rparr>)))
     = insert_row \<lparr>cotacao_table = Some [], cotacao_seq = 0\<rparr> demo_quote"
  using cotacao_exec_create_ignored [of "demo_env 1000 2000 (Reply 200 False (Some (cotacao_json demo_quote))) Fail_exec_create"
      200 False "Some (cotacao_json demo_quote)" "demo_server\<lparr>srv_db := \<lparr>cotacao_table = Some [], cotacao_seq = 0\<rparr>\<rparr>"]
  by (simp add: example_defs db_inv_def max_rowid_def zero_cotacao_def demo_quote_def)

end
