(* ===== verification/Client.thy ===== *)
theory Client
  imports Deadline Http
begin

text \<open>
  \<open>main\<close> of \<open>src/client/main.go\<close>: a context with the 300 ms budget, one
  \<open>GET http://localhost:8080\<close> through \<open>http.DefaultClient.Do\<close> under that
  context, a check of the deadline once the response is in, then the body read and
  written, after the label \<open>Dolar: \<close> (with the UTF-8 \<open>o\<close> acute), to
  \<open>cotacao.txt\<close>. The client's world is the file and its standard error. What the
  server, the clock and the file system do is an input, \<open>client_env\<close>.
  \<open>http.NewRequestWithContext\<close> is given a constant method and URL and cannot fail,
  so its error branch (lines 18-21) is not a branch of the model.
\<close>

section \<open>State and environment\<close>

record client_world =
  cotacao_txt :: "bytes option"    \<comment> \<open>the file's content; \<open>None\<close> while it does not exist\<close>
  c_log :: "log_event list"

text \<open>
  The server's answer: its response and the instant the response headers arrive, or
  \<open>None\<close> when the connection yields no response (refused, or closed by a server whose
  handler panicked or whose process exited). \<open>c_check\<close> is the instant of the
  \<open>select\<close>; a read or write error is given by the number of bytes that got through.
\<close>

record client_env =
  c_start :: time
  c_answer :: "(http_response \<times> time) option"
  c_check :: time
  c_read_cut :: "nat option"
  c_create_ok :: bool
  c_write_cut :: "nat option"

datatype client_outcome = Client_done | Client_panic

definition log_c :: "log_event \<Rightarrow> client_world \<Rightarrow> client_world" where
  "log_c e w = w\<lparr>c_log := c_log w @ [e]\<rparr>"

section \<open>The client's steps\<close>

text \<open>
  \<open>http.DefaultClient.Do(req)\<close> with the request's context: an error when there is no
  response, or when the deadline passes before the response headers arrive.
\<close>

definition client_Do :: "go_context \<Rightarrow> (http_response \<times> time) option \<Rightarrow> go_error + http_response" where
  "client_Do ctx a =
     (case a of
        None \<Rightarrow> Inl Transport_failure
      | Some (r, t) \<Rightarrow> if ctx_done ctx t then Inl DeadlineExceeded else Inr r)"

text \<open>\<open>fmt.Sprintf("D\<acute>olar: %s", resp)\<close>: the label's bytes, then the raw body.\<close>

definition dolar_label :: bytes where
  "dolar_label = ''D'' @ [CHR 0xC3, CHR 0xB3] @ ''lar: ''"

text \<open>
  \<open>io.ReadAll(res.Body)\<close>: the body, or the part read before an error, which is
  printed.
\<close>

definition read_body :: "nat option \<Rightarrow> http_response \<Rightarrow> client_world \<Rightarrow> bytes \<times> client_world" where
  "read_body n_read r w =
     (case n_read of None \<Rightarrow> (body r, w) | Some n \<Rightarrow> (take n (body r), log_c Err_client_read w))"

text \<open>
  \<open>os.Create\<close> then \<open>file.WriteString\<close>: creating truncates the file; a failed create
  is printed and leaves a nil \<open>*os.File\<close>, on which \<open>WriteString\<close> returns
  \<open>ErrInvalid\<close>, printed as a write error; a write that fails part-way leaves a prefix.
\<close>

definition write_file :: "bool \<Rightarrow> nat option \<Rightarrow> bytes \<Rightarrow> client_world \<Rightarrow> client_world" where
  "write_file create_ok n_written msg w =
     (if \<not> create_ok then log_c Err_file_write (log_c Err_file_create w)
      else case n_written of
        None \<Rightarrow> w\<lparr>cotacao_txt := Some msg\<rparr>
      | Some n \<Rightarrow> log_c Err_file_write (w\<lparr>cotacao_txt := Some (take n msg)\<rparr>))"

text \<open>
  \<open>main\<close>: on an error of \<open>Do\<close>, a log line and \<open>panic(err)\<close>; past the deadline
  at the \<open>select\<close>, two log lines and no file; otherwise the body is read and
  written. The status code of the response is never looked at.
\<close>

definition client_main :: "client_env \<Rightarrow> client_world \<Rightarrow> client_outcome \<times> client_world" where
  "client_main env w =
     (let ctx = WithTimeout (c_start env) client_timeout in
      case client_Do ctx (c_answer env) of
        Inl _ \<Rightarrow> (Client_panic, log_c Log_client_panic (log_c Log_client_timeout2 w))
      | Inr res \<Rightarrow>
          (if ctx_done ctx (c_check env)
           then (Client_done, log_c Log_ctx_err (log_c Log_client_timeout3 w))
           else
             (let (resp, w1) = read_body (c_read_cut env) res w
              in (Client_done, write_file (c_create_ok env) (c_write_cut env) (dolar_label @ resp) w1))))"

section \<open>Example inputs\<close>

definition demo_response :: http_response where
  "demo_response = \<lparr>status = 200, content_type = ''application/json'', body = CHR 0x22 # ''5.43'' @ [CHR 0x22, CHR 0x0A]\<rparr>"

definition demo_client_env :: "(http_response \<times> time) option \<Rightarrow> time \<Rightarrow> client_env" where
  "demo_client_env a tc = \<lparr>c_start = 0, c_answer = a, c_check = tc, c_read_cut = None,
     c_create_ok = True, c_write_cut = None\<rparr>"

definition demo_world :: client_world where
  "demo_world = \<lparr>cotacao_txt = None, c_log = []\<rparr>"

declare demo_client_env_def [example_defs] demo_world_def [example_defs]

section \<open>Lemmas on the client\<close>

lemma client_Do_in_time:
  "t < c0 + d \<Longrightarrow> client_Do (WithTimeout c0 d) (Some (r, t)) = Inr r"
  by (simp add: client_Do_def)

lemma client_Do_Inr:
  "client_Do ctx a = Inr r \<Longrightarrow> \<exists>t. a = Some (r, t) \<and> \<not> ctx_done ctx t"
  by (auto simp: client_Do_def split: option.splits if_splits)

lemma log_c_file [simp]: "cotacao_txt (log_c e w) = cotacao_txt w"
  by (simp add: log_c_def)

text \<open>
  C9: the client changes \<open>cotacao.txt\<close> only when the server's response headers
  arrived, and its \<open>select\<close> ran, within 300 ms of the client's start.
\<close>

theorem client_file_in_time:
  assumes "cotacao_txt (snd (client_main env w)) \<noteq> cotacao_txt w"
  shows "\<exists>r t. c_answer env = Some (r, t) \<and> t < c_start env + client_timeout
           \<and> c_check env < c_start env + client_timeout"
  using assms
  by (auto simp: client_main_def Let_def split: sum.splits if_splits prod.splits
      dest!: client_Do_Inr)

text \<open>
  C10: when the response arrived in time but the deadline has passed at the
  \<open>select\<close>, the client writes no file and logs exactly the timeout message and the
  context's error, although a response was received.
\<close>

theorem client_late_check:
  "c_answer env = Some (r, t) \<Longrightarrow> t < c_start env + client_timeout \<Longrightarrow>
   c_start env + client_timeout \<le> c_check env \<Longrightarrow>
   client_main env w = (Client_done, w\<lparr>c_log := c_log w @ [Log_client_timeout3, Log_ctx_err]\<rparr>)"
  by (simp add: client_main_def client_Do_in_time log_c_def)

text \<open>
  C11: when the server gives no response, or its headers arrive after the 300 ms,
  the client logs and panics, and the file is left as it was.
\<close>

theorem client_no_response:
  "c_answer env = None \<or> (\<exists>r t. c_answer env = Some (r, t) \<and> c_start env + client_timeout \<le> t) \<Longrightarrow>
   client_main env w = (Client_panic, w\<lparr>c_log := c_log w @ [Log_client_timeout2, Log_client_panic]\<rparr>)"
  by (auto simp: client_main_def client_Do_def log_c_def)

text \<open>
  C12: when the response arrived and was checked in time and the read, create and
  write succeed, \<open>cotacao.txt\<close> holds exactly the label followed by the raw body,
  whatever the response's status code.
\<close>

theorem client_writes_body:
  "c_answer env = Some (r, t) \<Longrightarrow> t < c_start env + client_timeout \<Longrightarrow>
   c_check env < c_start env + client_timeout \<Longrightarrow>
   c_read_cut env = None \<Longrightarrow> c_create_ok env \<Longrightarrow> c_write_cut env = None \<Longrightarrow>
   client_main env w = (Client_done, w\<lparr>cotacao_txt := Some (dolar_label @ body r)\<rparr>)"
  by (simp add: client_main_def client_Do_in_time read_body_def write_file_def)

text \<open>
  C13: when \<open>os.Create\<close> fails, \<open>WriteString\<close> runs on the nil
  \<open>*os.File\<close> and fails in turn. The file is left as it was, and both errors are
  printed, after the read error if the read failed. The program still ends normally.
\<close>

theorem client_create_failure:
  "c_answer env = Some (r, t) \<Longrightarrow> t < c_start env + client_timeout \<Longrightarrow>
   c_check env < c_start env + client_timeout \<Longrightarrow> \<not> c_create_ok env \<Longrightarrow>
   client_main env w = (Client_done, w\<lparr>c_log := c_log w @
      (if c_read_cut env = None then [] else [Err_client_read]) @ [Err_file_create, Err_file_write]\<rparr>)"
  by (simp add: client_main_def client_Do_in_time read_body_def write_file_def log_c_def
      split: option.splits)

section \<open>Witnesses\<close>

theorem client_file_in_time_witness:
  "cotacao_txt (snd (client_main (demo_client_env (Some (demo_response, 1000)) 2000) demo_world))
     = Some (dolar_label @ body demo_response)
   \<and> (\<exists>r t. c_answer (demo_client_env (Some (demo_response, 1000)) 2000) = Some (r, t)
        \<and> t < c_start (demo_client_env (Some (demo_response, 1000)) 2000) + client_timeout
        \<and> c_check (demo_client_env (Some (demo_response, 1000)) 2000)
            < c_start (demo_client_env (Some (demo_response, 1000)) 2000) + client_timeout)"
proof -
  have w: "cotacao_txt (snd (client_main (demo_client_env (Some (demo_response, 1000)) 2000) demo_world))
     = Some (dolar_label @ body demo_response)"
    by (simp add: client_main_def client_Do_def example_defs read_body_def write_file_def)
  have "cotacao_txt (snd (client_main (demo_client_env (Some (demo_response, 1000)) 2000) demo_world))
     \<noteq> cotacao_txt demo_world"
    using w by (simp add: example_defs)
  then show ?thesis using w client_file_in_time by blast
qed

theorem client_late_check_witness:
  "client_main (demo_client_env (Some (demo_response, 1000)) 300000000) demo_world
     = (Client_done, demo_world\<lparr>c_log := [Log_client_timeout3, Log_ctx_err]\<rparr>)"
  using client_late_check [of "demo_client_env (Some (demo_response, 1000)) 300000000" demo_response 1000
      demo_world]
  by (simp add: example_defs)

theorem client_no_response_witness:
  "client_main (demo_client_env None 2000) demo_world
     = (Client_panic, demo_world\<lparr>c_log := [Log_client_timeout2, Log_client_panic]\<rparr>)"
  using client_no_response [of "demo_client_env None 2000" demo_world]
  by (simp add: example_defs)

theorem client_writes_body_witness:
  "client_main (demo_client_env (Some (demo_response\<lparr>status := 408\<rparr>, 1000)) 2000) demo_world
     = (Client_done, demo_world\<lparr>cotacao_txt := Some (dolar_label @ body demo_response)\<rparr>)"
  using client_writes_body [of "demo_client_env (Some (demo_response\<lparr>status := 408\<rparr>, 1000)) 2000"
      "demo_response\<lparr>status := 408\<rparr>" 1000 demo_world]
  by (simp add: example_defs)


theorem client_create_failure_witness:
  "client_main ((demo_client_env (Some (demo_response, 1000)) 2000)\<lparr>c_create_ok := False\<rparr>) demo_world
     = (Client_done, demo_world\<lparr>c_log := [Err_file_create, Err_file_write]\<rparr>)"
  using client_create_failure [of "(demo_client_env (Some (demo_response, 1000)) 2000)\<lparr>c_create_ok := False\<rparr>"
      demo_response 1000 demo_world]
  by (simp add: example_defs)

end
