(* ===== verification/Concurrency.thy ===== *)
theory Concurrency
  imports Server
begin

text \<open>
  Concurrent requests. \<open>net/http\<close> runs each request's handler on its own goroutine;
  the handlers share nothing but the SQLite table (and the process, which
  \<open>log.Fatal\<close> ends for all of them). The server is a state with the clock, the
  server record of \<open>Server\<close>, and one entry per request accepted so far; a step is
  one atomic action of one handler, taken by calling the same definitions the
  sequential handler \<open>cotacao\<close> calls: the fetch (\<open>AcessoApiCotacao\<close>), the
  persistence pre-check with \<open>createTable\<close>, the insertion (\<open>insertCotacao\<close>),
  and the response. Each SQL statement is atomic, as SQLite makes it; between two
  statements of one handler any other handler may run, and the clock may advance.
  Ghost fields of each entry record what its request did: the quote it fetched, the
  instant its persistence pre-check passed, and the row it appended.
\<close>

section \<open>State\<close>

datatype phase =
    Fetching
  | Persisting CotacaoUSDBRL
  | Inserting CotacaoUSDBRL
  | Replying CotacaoUSDBRL
  | Finished handler_outcome

record handler =
  h_ctx :: go_context
  h_phase :: phase
  h_quote :: "CotacaoUSDBRL option"
  h_checked :: "time option"
  h_row :: "row option"

record sys =
  clock :: time
  srv :: server
  hs :: "handler list"

definition init_sys :: sys where
  "init_sys = \<lparr>clock = 0, srv = \<lparr>srv_db = empty_db, srv_log = [], srv_up = True\<rparr>, hs = []\<rparr>"

text \<open>A request is accepted: its handler starts and makes its 210 ms context.\<close>

definition new_handler :: "time \<Rightarrow> handler" where
  "new_handler t = \<lparr>h_ctx = WithTimeout t server_timeout, h_phase = Fetching,
     h_quote = None, h_checked = None, h_row = None\<rparr>"

definition set_handler :: "nat \<Rightarrow> handler \<Rightarrow> sys \<Rightarrow> sys" where
  "set_handler i h s = s\<lparr>hs := (hs s)[i := h]\<rparr>"

section \<open>Atomic steps of one handler\<close>

text \<open>Handler \<open>i\<close> runs \<open>AcessoApiCotacao\<close> at the current instant; the 408 or the
  recovered panic ends it.\<close>

definition fetch_step :: "nat \<Rightarrow> upstream_reply \<Rightarrow> sys \<Rightarrow> sys" where
  "fetch_step i r s =
     (let h = hs s ! i in
      case AcessoApiCotacao (h_ctx h) (clock s) r (srv s) of
        (Ret (Inl _), v) \<Rightarrow> set_handler i (h\<lparr>h_phase :=
            Finished (Responded (http_Error ''Erro ao consumir API'' 408))\<rparr>)
          (s\<lparr>srv := log_srv Log_api_error v\<rparr>)
      | (Ret (Inr c), v) \<Rightarrow> set_handler i (h\<lparr>h_phase := Persisting c, h_quote := Some c\<rparr>) (s\<lparr>srv := v\<rparr>)
      | (Panic, v) \<Rightarrow> set_handler i (h\<lparr>h_phase := Finished Handler_panic\<rparr>)
          (s\<lparr>srv := log_srv Log_handler_panic v\<rparr>)
      | (Exit, v) \<Rightarrow> set_handler i (h\<lparr>h_phase := Finished Server_exit\<rparr>) (s\<lparr>srv := v\<rparr>))"

text \<open>Handler \<open>i\<close> enters \<open>GravarDados\<close>: the pre-check, then \<open>createTable\<close>.\<close>

definition check_step :: "nat \<Rightarrow> store_fault \<Rightarrow> sys \<Rightarrow> sys" where
  "check_step i f s =
     (let h = hs s ! i in
      case h_phase h of
        Persisting c \<Rightarrow>
          (if ctx_done (h_ctx h) (clock s)
           then set_handler i (h\<lparr>h_phase := Replying c\<rparr>)
                  (s\<lparr>srv := log_srv Log_persist_timeout (srv s)\<rparr>)
           else case createTable f (srv_db (srv s)) of
             Ret d1 \<Rightarrow> set_handler i (h\<lparr>h_phase := Inserting c, h_checked := Some (clock s)\<rparr>)
                        (s\<lparr>srv := (srv s)\<lparr>srv_db := d1\<rparr>\<rparr>)
           | Exit \<Rightarrow> set_handler i (h\<lparr>h_phase := Finished Server_exit\<rparr>) (s\<lparr>srv := server_exit (srv s)\<rparr>)
           | Panic \<Rightarrow> set_handler i (h\<lparr>h_phase := Finished Handler_panic\<rparr>) s)
      | _ \<Rightarrow> s)"

text \<open>Handler \<open>i\<close> runs \<open>insertCotacao\<close>; the ghost field keeps the row it appended.\<close>

definition insert_step :: "nat \<Rightarrow> store_fault \<Rightarrow> sys \<Rightarrow> sys" where
  "insert_step i f s =
     (let h = hs s ! i in
      case h_phase h of
        Inserting c \<Rightarrow>
          (case insertCotacao f c (srv_db (srv s)) of
             Ret d2 \<Rightarrow> set_handler i (h\<lparr>h_phase := Replying c, h_row := Some (last (rows_of d2))\<rparr>)
                        (s\<lparr>srv := log_srv Log_persist_ok ((srv s)\<lparr>srv_db := d2\<rparr>)\<rparr>)
           | Exit \<Rightarrow> set_handler i (h\<lparr>h_phase := Finished Server_exit\<rparr>) (s\<lparr>srv := server_exit (srv s)\<rparr>)
           | Panic \<Rightarrow> set_handler i (h\<lparr>h_phase := Finished Handler_panic\<rparr>) s)
      | _ \<Rightarrow> s)"

text \<open>Handler \<open>i\<close> writes its \<open>200\<close> response and returns.\<close>

definition reply_step :: "nat \<Rightarrow> sys \<Rightarrow> sys" where
  "reply_step i s =
     (let h = hs s ! i in
      case h_phase h of
        Replying c \<Rightarrow> set_handler i (h\<lparr>h_phase := Finished (Responded (ok_json (Bid (Usdbrl c))))\<rparr>) s
      | _ \<Rightarrow> s)"

fun is_persisting :: "phase \<Rightarrow> bool" where
  "is_persisting (Persisting _) = True"
| "is_persisting _ = False"

fun is_inserting :: "phase \<Rightarrow> bool" where
  "is_inserting (Inserting _) = True"
| "is_inserting _ = False"

fun is_replying :: "phase \<Rightarrow> bool" where
  "is_replying (Replying _) = True"
| "is_replying _ = False"

section \<open>The step relation\<close>

text \<open>
  Time passes; a request is accepted; or one handler takes its next atomic step,
  with whatever the network answers and whatever fault the database meets. Nothing
  happens in a process that has exited.
\<close>

inductive sys_step :: "sys \<Rightarrow> sys \<Rightarrow> bool" where
  tick: "clock s \<le> t \<Longrightarrow> sys_step s (s\<lparr>clock := t\<rparr>)"
| accept: "srv_up (srv s) \<Longrightarrow> sys_step s (s\<lparr>hs := hs s @ [new_handler (clock s)]\<rparr>)"
| fetch: "srv_up (srv s) \<Longrightarrow> i < length (hs s) \<Longrightarrow> h_phase (hs s ! i) = Fetching \<Longrightarrow>
    sys_step s (fetch_step i r s)"
| check: "srv_up (srv s) \<Longrightarrow> i < length (hs s) \<Longrightarrow> is_persisting (h_phase (hs s ! i)) \<Longrightarrow>
    sys_step s (check_step i f s)"
| insert: "srv_up (srv s) \<Longrightarrow> i < length (hs s) \<Longrightarrow> is_inserting (h_phase (hs s ! i)) \<Longrightarrow>
    sys_step s (insert_step i f s)"
| reply: "srv_up (srv s) \<Longrightarrow> i < length (hs s) \<Longrightarrow> is_replying (h_phase (hs s ! i)) \<Longrightarrow>
    sys_step s (reply_step i s)"

inductive reachable :: "sys \<Rightarrow> bool" where
  init: "reachable init_sys"
| step: "reachable s \<Longrightarrow> sys_step s t \<Longrightarrow> reachable t"

section \<open>Invariant\<close>

text \<open>
  The invariant. A request's ghost row, if any, holds the quote that request fetched,
  and its persistence pre-check passed before its deadline; a handler that has not
  inserted yet has no row; the table is consistent, its keys are exactly
  \<open>1, ..., n\<close>, and its rows are, as a multiset, exactly the requests' ghost rows.
\<close>

definition row_ok :: "handler \<Rightarrow> bool" where
  "row_ok h \<longleftrightarrow>
     (case h_row h of
        None \<Rightarrow> True
      | Some r \<Rightarrow> \<exists>c t. h_quote h = Some c \<and> h_checked h = Some t \<and> t < ctx_deadline (h_ctx h)
                    \<and> row_values r = map Some (quote_columns (Usdbrl c)))"

definition h_inv :: "handler \<Rightarrow> bool" where
  "h_inv h \<longleftrightarrow>
     (case h_phase h of
        Fetching \<Rightarrow> h_row h = None
      | Persisting c \<Rightarrow> h_row h = None \<and> h_quote h = Some c
      | Inserting c \<Rightarrow> h_row h = None \<and> h_quote h = Some c
          \<and> (\<exists>t. h_checked h = Some t \<and> t < ctx_deadline (h_ctx h))
      | Replying c \<Rightarrow> h_quote h = Some c \<and> row_ok h
      | Finished _ \<Rightarrow> row_ok h)"

definition keys_consecutive :: "db \<Rightarrow> bool" where
  "keys_consecutive d \<longleftrightarrow>
     map idCotacao (rows_of d) = [1..int (length (rows_of d))] \<and> cotacao_seq d = int (length (rows_of d))"

definition sys_inv :: "sys \<Rightarrow> bool" where
  "sys_inv s \<longleftrightarrow> db_inv (srv_db (srv s)) \<and> keys_consecutive (srv_db (srv s))
     \<and> (\<forall>h \<in> set (hs s). h_inv h)
     \<and> mset (rows_of (srv_db (srv s))) = mset (List.map_filter h_row (hs s))"

text \<open>Two requests accepted at instant 0 and interleaved, for the witnesses.\<close>

definition demo_reply :: upstream_reply where
  "demo_reply = Reply 200 False (Some (cotacao_json demo_quote))"

definition accepted_two :: sys where
  "accepted_two = init_sys\<lparr>hs := [new_handler 0, new_handler 0]\<rparr>"

definition two_requests :: sys where
  "two_requests =
     reply_step 1 (reply_step 0 (insert_step 0 No_fault (insert_step 1 No_fault
       (check_step 1 No_fault (check_step 0 No_fault ((fetch_step 1 demo_reply
         (fetch_step 0 demo_reply accepted_two))\<lparr>clock := 150000000\<rparr>))))))"

section \<open>Each step keeps the invariant\<close>

lemma row_ok_phase [simp]: "row_ok (h\<lparr>h_phase := p\<rparr>) = row_ok h"
  by (simp add: row_ok_def split: option.splits)

lemma sys_inv_init: "sys_inv init_sys"
  by (simp add: sys_inv_def init_sys_def empty_db_def db_inv_def keys_consecutive_def rows_of_def
      max_rowid_def)

lemma in_set_update_cases: "x \<in> set (xs[i := y]) \<Longrightarrow> x = y \<or> x \<in> set xs"
  using set_update_subset_insert by fastforce

text \<open>A step that replaces one handler without changing its row, and leaves the table's
  rows and key counter as they were, keeps the invariant.\<close>

lemma sys_inv_set_handler:
  assumes inv: "sys_inv s" and i: "i < length (hs s)" and h: "h_inv h"
    and row: "h_row h = h_row (hs s ! i)"
    and db: "db_inv (srv_db v)" "rows_of (srv_db v) = rows_of (srv_db (srv s))"
      "cotacao_seq (srv_db v) = cotacao_seq (srv_db (srv s))"
  shows "sys_inv (set_handler i h (s\<lparr>srv := v\<rparr>))"
  using inv h db map_filter_update_same [OF i row]
  by (auto simp: sys_inv_def set_handler_def keys_consecutive_def dest: in_set_update_cases)

lemma sys_inv_set_handler_same_srv:
  "sys_inv s \<Longrightarrow> i < length (hs s) \<Longrightarrow> h_inv h \<Longrightarrow> h_row h = h_row (hs s ! i) \<Longrightarrow>
   sys_inv (set_handler i h s)"
  using sys_inv_set_handler [of s i h "srv s"] by (simp add: sys_inv_def)

lemma fetch_step_inv:
  assumes inv: "sys_inv s" and i: "i < length (hs s)" and ph: "h_phase (hs s ! i) = Fetching"
  shows "sys_inv (fetch_step i r s)"
proof -
  let ?h = "hs s ! i"
  have hi: "h_inv ?h" using inv i by (simp add: sys_inv_def)
  with ph have none: "h_row ?h = None" by (simp add: h_inv_def)
  obtain res v where acc: "AcessoApiCotacao (h_ctx ?h) (clock s) r (srv s) = (res, v)"
    by (cases "AcessoApiCotacao (h_ctx ?h) (clock s) r (srv s)")
  have dbv: "srv_db v = srv_db (srv s)" using AcessoApiCotacao_db [OF acc] .
  have dbi: "db_inv (srv_db (srv s))" using inv by (simp add: sys_inv_def)
  show ?thesis
    using acc dbv dbi none
    by (auto simp: fetch_step_def Let_def h_inv_def row_ok_def
        intro!: sys_inv_set_handler [OF inv i] split: go_result.splits sum.splits)
qed

lemma check_step_inv:
  assumes inv: "sys_inv s" and i: "i < length (hs s)"
  shows "sys_inv (check_step i f s)"
proof (cases "h_phase (hs s ! i)")
  case (Persisting c)
  let ?h = "hs s ! i"
  have hi: "h_inv ?h" using inv i by (simp add: sys_inv_def)
  with Persisting have none: "h_row ?h = None" and q: "h_quote ?h = Some c" by (simp_all add: h_inv_def)
  have dbi: "db_inv (srv_db (srv s))" using inv by (simp add: sys_inv_def)
  show ?thesis
    using Persisting none q dbi
    by (auto simp: check_step_def Let_def h_inv_def row_ok_def ctx_done_def server_exit_def log_srv_def
        dest: createTable_rows createTable_inv
        intro!: sys_inv_set_handler [OF inv i] sys_inv_set_handler_same_srv [OF inv i]
        split: go_result.splits)
qed (simp_all add: check_step_def inv)

lemma h_inv_Inserting:
  "h_inv h \<Longrightarrow> h_phase h = Inserting c \<Longrightarrow>
   h_row h = None \<and> h_quote h = Some c \<and> (\<exists>t. h_checked h = Some t \<and> t < ctx_deadline (h_ctx h))"
  by (simp add: h_inv_def)

lemma keys_consecutive_insert_row:
  "keys_consecutive d \<Longrightarrow> keys_consecutive (insert_row d u)"
  using upto_snoc_int [of "int (length (rows_of d))"]
  by (simp add: keys_consecutive_def algebra_simps)

lemma insert_step_inv:
  assumes inv: "sys_inv s" and i: "i < length (hs s)"
  shows "sys_inv (insert_step i f s)"
proof (cases "h_phase (hs s ! i)")
  case (Inserting c)
  let ?h = "hs s ! i" and ?d = "srv_db (srv s)"
  have "h_inv ?h" using inv i by (simp add: sys_inv_def)
  then obtain t where none: "h_row ?h = None" and q: "h_quote ?h = Some c"
    and chk: "h_checked ?h = Some t" "t < ctx_deadline (h_ctx ?h)"
    using h_inv_Inserting [OF _ Inserting] by blast
  have dbi: "db_inv ?d" and keys: "keys_consecutive ?d"
    and ms: "mset (rows_of ?d) = mset (List.map_filter h_row (hs s))"
    and all: "\<forall>h \<in> set (hs s). h_inv h"
    using inv by (simp_all add: sys_inv_def)
  show ?thesis
  proof (cases "insertCotacao f c ?d")
    case (Ret d2)
    from insertCotacao_Ret [OF Ret dbi] have room: "cotacao_seq ?d < max_rowid"
      and d2: "d2 = insert_row ?d (Usdbrl c)" by simp_all
    let ?r = "\<lparr>idCotacao = cotacao_seq ?d + 1, row_values = map Some (quote_columns (Usdbrl c))\<rparr>"
    let ?h' = "?h\<lparr>h_phase := Replying c, h_row := Some ?r\<rparr>"
    have hinv': "h_inv ?h'" using q chk by (simp add: h_inv_def row_ok_def)
    have dbi': "db_inv d2" using d2 insert_row_inv [OF dbi room] by simp
    have keys': "keys_consecutive d2" using d2 keys_consecutive_insert_row [OF keys] by simp
    have ms': "mset (rows_of d2) = mset (List.map_filter h_row ((hs s)[i := ?h']))"
      using ms d2 mset_map_filter_update_Some [of i "hs s" h_row ?h' ?r] i none by simp
    have last: "last (rows_of d2) = ?r" using d2 by simp
    show ?thesis
      using Inserting Ret last dbi' keys' ms' hinv' all
      by (auto simp: insert_step_def Let_def set_handler_def sys_inv_def log_srv_def
          dest: in_set_update_cases)
  next
    case Exit
    have "h_inv (?h\<lparr>h_phase := Finished Server_exit\<rparr>)" using none by (simp add: h_inv_def row_ok_def)
    then show ?thesis
      using Inserting Exit dbi
      by (auto simp: insert_step_def Let_def server_exit_def log_srv_def
          intro!: sys_inv_set_handler [OF inv i])
  next
    case Panic
    have "h_inv (?h\<lparr>h_phase := Finished Handler_panic\<rparr>)" using none by (simp add: h_inv_def row_ok_def)
    then show ?thesis
      using Inserting Panic
      by (auto simp: insert_step_def Let_def intro!: sys_inv_set_handler_same_srv [OF inv i])
  qed
qed (simp_all add: insert_step_def inv)

lemma reply_step_inv:
  assumes inv: "sys_inv s" and i: "i < length (hs s)"
  shows "sys_inv (reply_step i s)"
proof (cases "h_phase (hs s ! i)")
  case (Replying c)
  have "h_inv (hs s ! i)" using inv i by (simp add: sys_inv_def)
  with Replying have "h_inv ((hs s ! i)\<lparr>h_phase := Finished (Responded (ok_json (Bid (Usdbrl c))))\<rparr>)"
    by (simp add: h_inv_def)
  then show ?thesis
    using Replying by (simp add: reply_step_def sys_inv_set_handler_same_srv [OF inv i])
qed (simp_all add: reply_step_def inv)

lemma sys_step_inv: "sys_step s t \<Longrightarrow> sys_inv s \<Longrightarrow> sys_inv t"
proof (induction rule: sys_step.induct)
  case (tick s t)
  then show ?case by (simp add: sys_inv_def)
next
  case (accept s)
  then show ?case
    by (auto simp: sys_inv_def new_handler_def h_inv_def map_filter_snoc_None)
next
  case (fetch s i r)
  then show ?case by (simp add: fetch_step_inv)
next
  case (check s i f)
  then show ?case by (simp add: check_step_inv)
next
  case (insert s i f)
  then show ?case by (simp add: insert_step_inv)
next
  case (reply s i)
  then show ?case by (simp add: reply_step_inv)
qed

lemma h_inv_row:
  "h_inv h \<Longrightarrow> h_row h = Some r \<Longrightarrow>
   \<exists>c t. h_quote h = Some c \<and> h_checked h = Some t \<and> t < ctx_deadline (h_ctx h)
     \<and> row_values r = map Some (quote_columns (Usdbrl c))"
  by (cases "h_phase h") (auto simp: h_inv_def row_ok_def)

lemma reachable_sys_inv: "reachable s \<Longrightarrow> sys_inv s"
  by (induction rule: reachable.induct) (auto simp: sys_inv_init dest: sys_step_inv)

text \<open>
  C6: in every reachable state of the concurrent server, the table's keys are
  exactly \<open>1, 2, ..., n\<close> in row order: distinct, increasing and without gaps,
  however the handlers interleave.
\<close>

theorem reachable_keys_consecutive:
  "reachable s \<Longrightarrow>
   map idCotacao (rows_of (srv_db (srv s))) = [1..int (length (rows_of (srv_db (srv s))))]"
  by (drule reachable_sys_inv) (simp add: sys_inv_def keys_consecutive_def)

text \<open>
  C7: in every reachable state, the table's rows are, as a multiset, exactly the
  rows the requests appended: every row was appended by one request, and no request
  appended more than one.
\<close>

theorem reachable_rows_by_requests:
  "reachable s \<Longrightarrow> mset (rows_of (srv_db (srv s))) = mset (List.map_filter h_row (hs s))"
  by (drule reachable_sys_inv) (simp add: sys_inv_def)

text \<open>
  C8: every row in the table was appended by a request whose persistence pre-check
  passed before that request's own deadline, and it holds the quote that request
  fetched.
\<close>

theorem reachable_row_in_time:
  "reachable s \<Longrightarrow> h \<in> set (hs s) \<Longrightarrow> h_row h = Some r \<Longrightarrow>
   \<exists>c t. h_quote h = Some c \<and> h_checked h = Some t \<and> t < ctx_deadline (h_ctx h)
     \<and> row_values r = map Some (quote_columns (Usdbrl c))"
  using reachable_sys_inv h_inv_row by (fastforce simp: sys_inv_def)

section \<open>An interleaving of two requests\<close>

lemmas demo_step_defs = fetch_step_def check_step_def insert_step_def reply_step_def set_handler_def
  Let_def AcessoApiCotacao_def GetApiCotacao_def ctx_err_def log_srv_def createTable_def
  create_table_if_not_exists_def new_handler_def demo_reply_def accepted_two_def init_sys_def
  empty_db_def example_defs insertCotacao_No_fault db_inv_def max_rowid_def
  rows_of_def insert_row_def

lemma reachable_accepted_two: "reachable accepted_two"
proof -
  have a1: "reachable (init_sys\<lparr>hs := hs init_sys @ [new_handler (clock init_sys)]\<rparr>)"
    by (rule reachable.step [OF reachable.init sys_step.accept]) (simp add: init_sys_def)
  have "reachable ((init_sys\<lparr>hs := hs init_sys @ [new_handler (clock init_sys)]\<rparr>)
     \<lparr>hs := hs (init_sys\<lparr>hs := hs init_sys @ [new_handler (clock init_sys)]\<rparr>)
           @ [new_handler (clock (init_sys\<lparr>hs := hs init_sys @ [new_handler (clock init_sys)]\<rparr>))]\<rparr>)"
    by (rule reachable.step [OF a1 sys_step.accept]) (simp add: init_sys_def)
  then show ?thesis by (simp add: accepted_two_def init_sys_def)
qed

lemma reachable_two_requests: "reachable two_requests"
proof -
  let ?s1 = "fetch_step 0 demo_reply accepted_two"
  let ?s2 = "fetch_step 1 demo_reply ?s1"
  let ?s3 = "?s2\<lparr>clock := 150000000\<rparr>"
  let ?s4 = "check_step 0 No_fault ?s3"
  let ?s5 = "check_step 1 No_fault ?s4"
  let ?s6 = "insert_step 1 No_fault ?s5"
  let ?s7 = "insert_step 0 No_fault ?s6"
  let ?s8 = "reply_step 0 ?s7"
  have r1: "reachable ?s1"
    by (rule reachable.step [OF reachable_accepted_two sys_step.fetch]) (simp_all add: demo_step_defs)
  have r2: "reachable ?s2"
    by (rule reachable.step [OF r1 sys_step.fetch]) (simp_all add: demo_step_defs)
  have r3: "reachable ?s3"
    by (rule reachable.step [OF r2 sys_step.tick]) (simp add: demo_step_defs)
  have r4: "reachable ?s4"
    by (rule reachable.step [OF r3 sys_step.check]) (simp_all add: demo_step_defs)
  have r5: "reachable ?s5"
    by (rule reachable.step [OF r4 sys_step.check]) (simp_all add: demo_step_defs)
  have r6: "reachable ?s6"
    by (rule reachable.step [OF r5 sys_step.insert]) (simp_all add: demo_step_defs)
  have r7: "reachable ?s7"
    by (rule reachable.step [OF r6 sys_step.insert]) (simp_all add: demo_step_defs insert_step_def)
  have r8: "reachable ?s8"
    by (rule reachable.step [OF r7 sys_step.reply]) (simp_all add: demo_step_defs)
  have "reachable (reply_step 1 ?s8)"
    by (rule reachable.step [OF r8 sys_step.reply]) (simp_all add: demo_step_defs)
  then show ?thesis by (simp add: two_requests_def)
qed

theorem reachable_keys_consecutive_witness:
  "reachable two_requests
   \<and> map idCotacao (rows_of (srv_db (srv two_requests)))
       = [1..int (length (rows_of (srv_db (srv two_requests))))]"
  using reachable_two_requests reachable_keys_consecutive [OF reachable_two_requests] by simp

theorem reachable_rows_by_requests_witness:
  "reachable two_requests
   \<and> mset (rows_of (srv_db (srv two_requests))) = mset (List.map_filter h_row (hs two_requests))"
  using reachable_two_requests reachable_rows_by_requests [OF reachable_two_requests] by simp

theorem reachable_row_in_time_witness:
  "reachable two_requests \<and> hs two_requests ! 0 \<in> set (hs two_requests)
   \<and> h_row (hs two_requests ! 0) = Some \<lparr>idCotacao = 2, row_values = map Some (quote_columns demo_quote)\<rparr>
   \<and> (\<exists>c t. h_quote (hs two_requests ! 0) = Some c \<and> h_checked (hs two_requests ! 0) = Some t
        \<and> t < ctx_deadline (h_ctx (hs two_requests ! 0))
        \<and> map Some (quote_columns demo_quote) = map Some (quote_columns (Usdbrl c)))"
proof -
  have mem: "hs two_requests ! 0 \<in> set (hs two_requests)"
    by (simp add: two_requests_def demo_step_defs)
  have row: "h_row (hs two_requests ! 0)
      = Some \<lparr>idCotacao = 2, row_values = map Some (quote_columns demo_quote)\<rparr>"
    by (simp add: two_requests_def demo_step_defs)
  show ?thesis
    using reachable_two_requests mem row reachable_row_in_time [OF reachable_two_requests mem row]
    by simp
qed

end
