(* ===== verification/Spec2Isabelle.thy ===== *)
theory Spec2Isabelle
  imports Server Client Concurrency
begin

text \<open>
  Verification development for the USD/BRL quote service of this repository: a Go
  HTTP server, \<open>src/server/main.go\<close>, and a Go client, \<open>src/client/main.go\<close>.

  \<^bold>\<open>The program.\<close> The server's \<open>main\<close> serves every path with the handler
  \<open>cotacao\<close>. The handler makes a context with a 210 ms budget. \<open>AcessoApiCotacao\<close>
  checks it once, then \<open>GetApiCotacao\<close> fetches the quote from the public API and
  decodes it with \<open>json.Unmarshal\<close> into \<open>CotacaoUSDBRL\<close>. \<open>GravarDados\<close>
  checks the same context once more, then \<open>createTable\<close> and \<open>insertCotacao\<close>
  write the quote as one row of the SQLite table \<open>cotacao\<close>. The response is
  the bid encoded by \<open>json.NewEncoder(w).Encode\<close>, or a 408 when the first check
  fails. The client makes a context with a 300 ms budget, sends one GET to the
  server, checks the context once the response is in, and writes the label
  \<open>D\<acute>olar: \<close> and the raw body to \<open>cotacao.txt\<close>.

  \<^bold>\<open>Theories.\<close>
  \<^item> \<open>Prelude\<close>: time in nanoseconds (\<open>time = nat\<close>), byte strings as
    \<open>char list\<close>, how a Go call ends (\<open>go_result\<close>: returns, panics, or exits
    the process), the messages both programs print (\<open>log_event\<close>), and generic
    lemmas on lists and multisets.
  \<^item> \<open>Deadline\<close>: \<open>context.WithTimeout\<close> as an absolute deadline;
    \<open>select\<close> on \<open>ctx.Done()\<close> with a \<open>default\<close> branch is \<open>ctx_done\<close>,
    the test \<open>deadline \<le> now\<close> at the instant the \<open>select\<close> runs.
  \<^item> \<open>Quote\<close>: the structs \<open>CotacaoUSDBRL\<close> and \<open>Cot\<close> as records,
    JSON values as a datatype, and \<open>json.Unmarshal\<close> on an already parsed
    value: exact key match first, then Go's case folding (\<open>fold_name\<close>),
    \<open>null\<close> ignored, a type error flagged with the field left unchanged.
  \<^item> \<open>JsonEncode\<close>: \<open>Encoder.Encode\<close> of a string with HTML escaping:
    UTF-8 validation by Go's \<open>acceptRanges\<close>, escapes, trailing newline.
  \<^item> \<open>Http\<close>: a response (status, content type, body).
  \<^item> \<open>Store\<close>: the table as a record of rows and the \<open>AUTOINCREMENT\<close>
    counter over SQLite's 64-bit key space. It holds the two SQL statements of the
    source and their semantics, and \<open>createTable\<close>/\<open>insertCotacao\<close> with
    their \<open>log.Fatal\<close> branches. A database fault is an input
    (\<open>store_fault\<close>).
  \<^item> \<open>Server\<close>: the server process (database, standard error, running or not)
    and one function per Go function: \<open>GetApiCotacao\<close>, \<open>AcessoApiCotacao\<close>,
    \<open>GravarDados\<close>, \<open>cotacao\<close>. The network and the clock are inputs
    (\<open>req_env\<close>): the instants of the two \<open>select\<close>s, the upstream's reply,
    the store fault.
  \<^item> \<open>Client\<close>: the client's \<open>main\<close> as \<open>client_main\<close>, over the file
    \<open>cotacao.txt\<close> and its standard error. The server's answer, its arrival
    instant and the I/O errors are inputs (\<open>client_env\<close>).
  \<^item> \<open>Concurrency\<close>: concurrent handlers as an \<open>inductive\<close> step relation
    \<open>sys_step\<close>. Each step is one atomic action of one handler, built from the
    same definitions as \<open>cotacao\<close>. An invariant \<open>sys_inv\<close> is proved for
    every \<open>reachable\<close> state by rule induction.
  \<^item> this theory: the server's \<open>main\<close> as \<open>serve\<close>, and one run of the
    whole system, the server's handler and then the client (\<open>quote_run\<close>).

  \<^bold>\<open>What is proved.\<close>
  \<^item> The handler, branch by branch: success (200, the encoded bid, one new
    row), 408 at the first check, a late second check that skips persistence
    and still answers 200, and a transport error that panics. Also a malformed
    payload that stores empty strings, the status of every outcome, and store
    faults that end the process. The discarded error of the \<open>CREATE TABLE\<close> goes
    unnoticed when the table exists and surfaces as a fatal \<open>INSERT\<close> when it
    does not.
  \<^item> The store: an insertion appends exactly the quote's row with the next key,
    the full key space is fatal, and \<open>createTable\<close> always returns and keeps
    every row and the key counter. The store's consistency \<open>db_inv\<close> (keys
    strictly increasing, positive, at most the counter) is a lemma the concurrent
    invariant uses.
  \<^item> Concurrency: in every reachable state the keys are consecutive, the rows are
    in multiset correspondence with the handlers that inserted, and each row
    comes from a handler whose persistence check passed within its 210 ms. The
    witnesses run two requests interleaved.
  \<^item> The client: it changes the file only when answered and checked in time. It
    writes nothing when the check is late, panics without a response, and
    writes the raw body whatever the status. A failed \<open>os.Create\<close> prints two
    errors and leaves the file unchanged.
  \<^item> End to end: the success run, the 408 body written to \<open>cotacao.txt\<close> as if
    it were a quote, and the client's panic on a server panic.
  \<^item> Decoding and encoding: \<open>Unmarshal\<close> decodes the API's payload, written
    with the API's own keys, to the quote it carries, also when the keys are
    renamed to variants that fold to the same names;
    an object without the key leaves the zero quote and reports no error;
    \<open>Encode\<close> of a safe string is the string in quotes; the encoded body never
    holds a control byte or \<open><\<close>, \<open>>\<close>, \<open>&\<close>.

  \<^bold>\<open>Bounds and totality.\<close> Every function of the model is total: the Go code
  has no unbounded loop of its own. \<open>encode_runes\<close> is a \<open>function\<close> that
  terminates by the length of its input. No fuel is used. Time is unbounded
  (\<open>nat\<close>); the rowid is an \<open>int\<close> compared with \<open>2^63 - 1\<close>, where SQLite
  stops with \<open>SQLITE_FULL\<close>.

  \<^bold>\<open>Not modelled.\<close>
  \<^item> A previous run's database. The concurrent server starts from an empty
    database (\<open>init_sys\<close>), that is, one server lifetime with no
    \<open>./sqlite-database.db\<close> file yet. The code reopens the file, whose rows
    survive restarts, so the key claims of \<open>Concurrency\<close> count keys from the
    start of the file's life.
  \<^item> A hanging upstream. \<open>http.Get\<close> (line 74) has no context and no timeout,
    so in the code it can block forever. Here the upstream's reply is an input
    that always arrives, and the fetch is one step. So no liveness property is
    claimed for the server.
  \<^item> The byte-level JSON parser: \<open>Unmarshal\<close> takes the parsed value, or
    \<open>None\<close> for a syntax error, which leaves the target untouched.
  \<^item> The upstream API and the network, which are inputs.
  \<^item> \<open>sql.Open\<close> and \<open>Close\<close>, which open no connection and have no effect on
    the table.
  \<^item> The text of the log lines: only which message is printed, in order.
  \<^item> The encoder's escapes follow Go 1.22 and later.
\<close>

section \<open>The system: server main and one client run\<close>

text \<open>
  The server's \<open>main\<close>: \<open>http.HandleFunc("/", cotacao)\<close> registers the handler for
  the pattern \<open>/\<close>, which matches every path, and \<open>ListenAndServe(":8080", nil)\<close>
  serves each request with it while the process runs. A request gets the handler's
  response, or none when the handler panicked or the process has exited.
\<close>

definition serve :: "req_env \<Rightarrow> server \<Rightarrow> http_response option \<times> server" where
  "serve env s =
     (if \<not> srv_up s then (None, s)
      else case cotacao env s of
        (Responded r, s') \<Rightarrow> (Some r, s')
      | (_, s') \<Rightarrow> (None, s'))"

text \<open>
  One run of the system: the client's request is served, and the client receives the
  response (if any) at instant \<open>t_ans\<close>.
\<close>

definition quote_run ::
  "req_env \<Rightarrow> time \<Rightarrow> client_env \<Rightarrow> server \<Rightarrow> client_world \<Rightarrow> client_outcome \<times> server \<times> client_world" where
  "quote_run senv t_ans cenv s w =
     (let (a, s') = serve senv s;
          (out, w') = client_main (cenv\<lparr>c_answer := map_option (\<lambda>r. (r, t_ans)) a\<rparr>) w
      in (out, s', w'))"

text \<open>The client's side goes well: answer and check within its budget, no I/O error.\<close>

definition client_ok :: "time \<Rightarrow> client_env \<Rightarrow> bool" where
  "client_ok t_ans cenv \<longleftrightarrow> t_ans < c_start cenv + client_timeout \<and> c_check cenv < c_start cenv + client_timeout
     \<and> c_read_cut cenv = None \<and> c_create_ok cenv \<and> c_write_cut cenv = None"

section \<open>End-to-end properties\<close>

lemma serve_Responded:
  "srv_up s \<Longrightarrow> fst (cotacao env s) = Responded r \<Longrightarrow> serve env s = (Some r, snd (cotacao env s))"
  by (cases "cotacao env s") (simp add: serve_def)

lemma serve_no_response:
  "(\<forall>r. fst (cotacao env s) \<noteq> Responded r) \<Longrightarrow> fst (serve env s) = None"
  by (cases "cotacao env s") (auto simp: serve_def split: handler_outcome.splits)

lemma quote_run_answer:
  "serve senv s = (Some r, s') \<Longrightarrow> client_ok t_ans cenv \<Longrightarrow>
   quote_run senv t_ans cenv s w = (Client_done, s', w\<lparr>cotacao_txt := Some (dolar_label @ body r)\<rparr>)"
  by (simp add: quote_run_def client_ok_def client_main_def client_Do_in_time read_body_def write_file_def)

text \<open>
  C2: end to end: when the server's checks pass, the upstream sends a payload of the
  API's shape, the store meets no fault, and the client gets the response within its
  300 ms, \<open>cotacao.txt\<close> holds the label followed by the JSON-encoded bid and its
  newline, and the server's table gained the quote as one row.
\<close>

theorem quote_run_success:
  assumes "srv_up s"
    and "t_fetch senv < t_start senv + server_timeout"
    and "t_persist senv < t_start senv + server_timeout"
    and "upstream senv = Reply st False (Some (cotacao_json u))"
    and "fault senv = No_fault"
    and "db_inv (srv_db s)" and "cotacao_seq (srv_db s) < max_rowid"
    and "client_ok t_ans cenv"
  shows "cotacao_txt (snd (snd (quote_run senv t_ans cenv s w))) = Some (dolar_label @ Encode (Bid u))
     \<and> srv_db (fst (snd (quote_run senv t_ans cenv s w))) = insert_row (srv_db s) u"
proof -
  have "fst (cotacao senv s) = Responded (ok_json (Bid (Usdbrl (fst (Unmarshal (Some (cotacao_json u)) zero_cotacao)))))
    \<and> srv_db (snd (cotacao senv s)) = insert_row (srv_db s) (Usdbrl (fst (Unmarshal (Some (cotacao_json u)) zero_cotacao)))"
    using cotacao_in_time [OF assms(2-7)] .
  then have c: "fst (cotacao senv s) = Responded (ok_json (Bid u))" "srv_db (snd (cotacao senv s)) = insert_row (srv_db s) u"
    by (simp_all add: zero_cotacao_def)
  have "serve senv s = (Some (ok_json (Bid u)), snd (cotacao senv s))"
    using serve_Responded [OF assms(1) c(1)] .
  from quote_run_answer [OF this assms(8)] c(2) show ?thesis
    by (simp add: ok_json_def)
qed

text \<open>
  C14: end to end: when the server's deadline has passed at its pre-check, the
  client, which never looks at the status code, writes the 408 body as if it were the
  quote: \<open>cotacao.txt\<close> holds the label followed by \<open>Erro ao consumir API\<close>.
\<close>

theorem quote_run_408_written:
  assumes "srv_up s" and "t_start senv + server_timeout \<le> t_fetch senv" and "client_ok t_ans cenv"
  shows "cotacao_txt (snd (snd (quote_run senv t_ans cenv s w)))
           = Some (dolar_label @ ''Erro ao consumir API'' @ [CHR 0x0A])"
proof -
  have "serve senv s = (Some (http_Error ''Erro ao consumir API'' 408),
           s\<lparr>srv_log := srv_log s @ [Log_api_timeout, Log_api_error]\<rparr>)"
    using assms(1,2) by (simp add: serve_def cotacao_def AcessoApiCotacao_expired log_srv_def)
  from quote_run_answer [OF this assms(3)] show ?thesis by (simp add: http_Error_def)
qed

text \<open>
  C15: end to end: an upstream transport error panics the server's handler, so the
  client gets no response, panics in turn, and leaves \<open>cotacao.txt\<close> as it was.
\<close>

theorem quote_run_transport_error:
  assumes "srv_up s" and "t_fetch senv < t_start senv + server_timeout" and "upstream senv = Transport_error"
  shows "fst (quote_run senv t_ans cenv s w) = Client_panic
     \<and> cotacao_txt (snd (snd (quote_run senv t_ans cenv s w))) = cotacao_txt w"
proof -
  have "fst (cotacao senv s) = Handler_panic"
    using assms(2,3) by (simp add: cotacao_def AcessoApiCotacao_live GetApiCotacao_Transport_error)
  then have "fst (serve senv s) = None"
    by (simp add: serve_no_response)
  then obtain s' where "serve senv s = (None, s')"
    by (cases "serve senv s") auto
  then show ?thesis
    by (simp add: quote_run_def client_main_def client_Do_def log_c_def)
qed

section \<open>Witnesses\<close>

theorem quote_run_success_witness:
  "cotacao_txt (snd (snd (quote_run (demo_env 1000 2000 (Reply 200 False (Some (cotacao_json demo_quote))) No_fault)
      5000 (demo_client_env None 6000) demo_server demo_world)))
     = Some (''D'' @ [CHR 0xC3, CHR 0xB3] @ ''lar: '' @ [CHR 0x22] @ ''5.43'' @ [CHR 0x22, CHR 0x0A])
   \<and> srv_db (fst (snd (quote_run (demo_env 1000 2000 (Reply 200 False (Some (cotacao_json demo_quote))) No_fault)
      5000 (demo_client_env None 6000) demo_server demo_world))) = insert_row empty_db demo_quote"
proof -
  have enc: "Encode ''5.43'' = [CHR 0x22] @ ''5.43'' @ [CHR 0x22, CHR 0x0A]"
    by (simp add: Encode_def json_string_def dquote_def html_safe_def)
  show ?thesis
    using quote_run_success [of demo_server "demo_env 1000 2000 (Reply 200 False (Some (cotacao_json demo_quote)))
        No_fault" 200 demo_quote 5000 "demo_client_env None 6000" demo_world] demo_server_inv enc
    by (simp add: example_defs client_ok_def demo_quote_def dolar_label_def)
qed

theorem quote_run_408_written_witness:
  "cotacao_txt (snd (snd (quote_run (demo_env 210000000 210000000 Transport_error No_fault)
      250000000 (demo_client_env None 260000000) demo_server demo_world)))
     = Some (dolar_label @ ''Erro ao consumir API'' @ [CHR 0x0A])"
  using quote_run_408_written [of demo_server "demo_env 210000000 210000000 Transport_error No_fault" 250000000
      "demo_client_env None 260000000" demo_world]
  by (simp add: example_defs client_ok_def)

theorem quote_run_transport_error_witness:
  "fst (quote_run (demo_env 1000 2000 Transport_error No_fault) 5000 (demo_client_env None 6000)
      demo_server demo_world) = Client_panic
   \<and> cotacao_txt (snd (snd (quote_run (demo_env 1000 2000 Transport_error No_fault) 5000
      (demo_client_env None 6000) demo_server demo_world))) = None"
  using quote_run_transport_error [of demo_server "demo_env 1000 2000 Transport_error No_fault" 5000
      "demo_client_env None 6000" demo_world]
  by (simp add: example_defs)

end
